theory Spec2Isabelle
  imports Complex_Main "HOL-Library.Multiset"
begin

section \<open>Numbers\<close>

text \<open>
  A TypeScript \<open>number\<close> that carries a quantity (an amount, a staking power, the
  arguments of the voting-power curve) is modelled as a \<open>real\<close>: arithmetic is exact, and
  the rounding of IEEE doubles, \<open>NaN\<close> and the infinities are outside the model.
  Unix timestamps and day numbers are \<open>int\<close>, counts are \<open>nat\<close>.
\<close>

section \<open>Metrics engine (utils.ts)\<close>

subsection \<open>calcVotingPower\<close>

text \<open>
  The function is a chain of early returns; the model keeps their order, including the
  test of \<open>lockupDurationRange\<close> that comes after the two tests of \<open>duration\<close>.
\<close>

definition calcVotingPower ::
  "real \<Rightarrow> real \<Rightarrow> real \<Rightarrow> real \<Rightarrow> real \<Rightarrow> real \<Rightarrow> real \<Rightarrow> real" where
  "calcVotingPower lockupAmt lockupStartTs lockupEndTs lockupMinDuration
       lockupMaxSaturation lockupTargetVotingPct now =
     (if now > lockupEndTs then 0
      else if lockupEndTs \<le> lockupStartTs then 0
      else
        let duration = lockupEndTs - lockupStartTs;
            maxVotingPower = (lockupAmt * lockupTargetVotingPct) / 100;
            lockupDurationRange = lockupMaxSaturation - lockupMinDuration
        in if duration \<le> lockupMinDuration then lockupAmt
           else if duration \<ge> lockupMaxSaturation then maxVotingPower
           else if lockupDurationRange \<le> 0 then 0
           else lockupAmt +
                ((maxVotingPower - lockupAmt) * (duration - lockupMinDuration)) /
                  (lockupMaxSaturation - lockupMinDuration))"

text \<open>
  The reference definition, written from the specification's words
  (\<open>computeVotingPower\<close>): zero for an expired or degenerate window, then the three
  pieces of the curve. It has no case for a misconfigured range.
\<close>

definition computeVotingPower_spec ::
  "real \<Rightarrow> real \<Rightarrow> real \<Rightarrow> real \<Rightarrow> real \<Rightarrow> real \<Rightarrow> real \<Rightarrow> real" where
  "computeVotingPower_spec amount startTs endTs minDuration maxSaturationDuration
       targetVotingPct now =
     (if now > endTs \<or> endTs \<le> startTs then 0
      else if endTs - startTs \<le> minDuration then amount
      else if endTs - startTs \<ge> maxSaturationDuration then amount * targetVotingPct / 100
      else amount + (amount * targetVotingPct / 100 - amount) * (endTs - startTs - minDuration)
                      / (maxSaturationDuration - minDuration))"

text \<open>The unit interval clamp, used to state the curve in closed form.\<close>

definition clamp01 :: "real \<Rightarrow> real" where
  "clamp01 t = max 0 (min 1 t)"

section \<open>Snapshot model (types.ts)\<close>

record Staker =
  wallet :: string
  uiStakingPower :: real
  uiAmount :: real
  startTs :: int
  endTs :: int
  duration :: int

text \<open>
  \<open>StakerSnapshot\<close> is an interface that nothing checks at run time: the object stored
  by \<open>setData\<close> is the JSON that arrived. The three fields that the fetcher tests for
  presence are therefore optional in the model; \<open>None\<close> is a field that is absent.
\<close>

record StakerSnapshot =
  ts :: string
  totalUIStaked :: "real option"
  totalLockups :: int
  totalUIStakingPower :: "real option"
  stakers :: "Staker list option"

section \<open>Time-series aggregator (App.tsx, the delta-based variant)\<close>

subsection \<open>Dates and day keys\<close>

text \<open>
  \<open>Date\<close> and \<open>format\<close> of date-fns are not code of this repository; the model states
  their behaviour as follows.
  \<^item> A date is its time value, a number of milliseconds since the epoch. It is valid when
    the time value is at most 8.64e15 in absolute value; \<open>format\<close> throws
    \<open>RangeError: Invalid time value\<close> for a date that is not valid.
  \<^item> \<open>format\<close> prints the calendar day of the local time zone. The zone is a parameter
    \<open>tz\<close> of the model, its offset from UTC in seconds (positive east of UTC), the same
    for all dates: daylight saving is outside the model.
  \<^item> A day key is the string \<open>yyyy-MM-dd\<close>. The model represents it by the number of
    its day, counted from 1970-01-01. For the years 0001 to 9999 the order of the strings,
    which \<open>sort()\<close> and \<open><=\<close> use, is the order of the day numbers; for other years
    it is not, and the theorems below are stated for dates within these years.
  \<^item> \<open>new Date(key)\<close>, for a key that is a date without a time, is midnight of that day
    in UTC, whatever the local zone is.
  \<^item> \<open>setDate(getDate() + 1)\<close> moves a date by one day.
\<close>

datatype js_error = Error string | TypeError string | RangeError string

fun message :: "js_error \<Rightarrow> string" where
  "message (Error m) = m"
| "message (TypeError m) = m"
| "message (RangeError m) = m"

definition validDate :: "int \<Rightarrow> bool" where
  "validDate ms = (- 8640000000000000 \<le> ms \<and> ms \<le> 8640000000000000)"

definition localDay :: "int \<Rightarrow> int \<Rightarrow> int" where
  \<comment> \<open>the number of the local calendar day of a time value\<close>
  "localDay tz ms = (ms + tz * 1000) div 86400000"

definition formatDay :: "int \<Rightarrow> int \<Rightarrow> js_error + int" where
  \<comment> \<open>\<open>format(date, 'yyyy-MM-dd')\<close>\<close>
  "formatDay tz ms =
     (if validDate ms then Inr (localDay tz ms) else Inl (RangeError ''Invalid time value''))"

definition parseDay :: "int \<Rightarrow> int" where
  \<comment> \<open>\<open>new Date(key)\<close>\<close>
  "parseDay d = d * 86400000"

definition startDay :: "int \<Rightarrow> Staker \<Rightarrow> js_error + int" where
  \<comment> \<open>\<open>format(new Date(staker.startTs * 1000), 'yyyy-MM-dd')\<close>\<close>
  "startDay tz staker = formatDay tz (startTs staker * 1000)"

definition endDay :: "int \<Rightarrow> Staker \<Rightarrow> js_error + int option" where
  \<comment> \<open>\<open>staker.endTs ? format(new Date(staker.endTs * 1000), 'yyyy-MM-dd') : null\<close>:
      the number 0 is falsy\<close>
  "endDay tz staker =
     (if endTs staker \<noteq> 0
      then (case formatDay tz (endTs staker * 1000) of
              Inl e \<Rightarrow> Inl e
            | Inr d \<Rightarrow> Inr (Some d))
      else Inr None)"

subsection \<open>The delta map\<close>

record DayEntry =
  day :: int

record DayDelta = DayEntry +
  deltaStakingPower :: real
  deltaMeStaked :: real

record DayTotal = DayEntry +
  totalStakingPower :: real
  totalMeStaked :: real

text \<open>
  \<open>dailyAggregation\<close> is a JavaScript object used as a dictionary. Its keys keep their
  insertion order, so it is an association list with one pair for each key.
\<close>

type_synonym aggregation = "(int \<times> DayDelta) list"

definition zeroDelta :: "int \<Rightarrow> DayDelta" where
  "zeroDelta d = \<lparr>day = d, deltaStakingPower = 0, deltaMeStaked = 0\<rparr>"

definition ensureDay :: "int \<Rightarrow> aggregation \<Rightarrow> aggregation" where
  \<comment> \<open>\<open>acc[d] = acc[d] || { day: d, deltaStakingPower: 0, deltaMeStaked: 0 }\<close>\<close>
  "ensureDay d acc =
     (case map_of acc d of Some _ \<Rightarrow> acc | None \<Rightarrow> acc @ [(d, zeroDelta d)])"

definition modifyDay :: "int \<Rightarrow> (DayDelta \<Rightarrow> DayDelta) \<Rightarrow> aggregation \<Rightarrow> aggregation" where
  "modifyDay d f acc = map (\<lambda>(k, v). if k = d then (k, f v) else (k, v)) acc"

definition addStake :: "Staker \<Rightarrow> DayDelta \<Rightarrow> DayDelta" where
  "addStake staker v =
     v\<lparr>deltaStakingPower := deltaStakingPower v + uiStakingPower staker,
       deltaMeStaked := deltaMeStaked v + uiAmount staker\<rparr>"

definition subtractStake :: "Staker \<Rightarrow> DayDelta \<Rightarrow> DayDelta" where
  "subtractStake staker v =
     v\<lparr>deltaStakingPower := deltaStakingPower v - uiStakingPower staker,
       deltaMeStaked := deltaMeStaked v - uiAmount staker\<rparr>"

definition applyStake :: "int \<Rightarrow> int option \<Rightarrow> Staker \<Rightarrow> aggregation \<Rightarrow> aggregation" where
  \<comment> \<open>the updates of the callback, once its two keys are computed\<close>
  "applyStake sd ed staker acc =
     (let acc1 = modifyDay sd (addStake staker) (ensureDay sd acc)
      in case ed of
           None \<Rightarrow> acc1
         | Some e \<Rightarrow> modifyDay e (subtractStake staker) (ensureDay e acc1))"

definition aggStep :: "int \<Rightarrow> aggregation \<Rightarrow> Staker \<Rightarrow> js_error + aggregation" where
  \<comment> \<open>the callback of \<open>data.stakers.reduce\<close>: both keys are computed first, and
      either \<open>format\<close> may throw\<close>
  "aggStep tz acc staker =
     (case startDay tz staker of
        Inl e \<Rightarrow> Inl e
      | Inr sd \<Rightarrow>
          (case endDay tz staker of
             Inl e \<Rightarrow> Inl e
           | Inr ed \<Rightarrow> Inr (applyStake sd ed staker acc)))"

fun reduceStakers :: "int \<Rightarrow> aggregation \<Rightarrow> Staker list \<Rightarrow> js_error + aggregation" where
  "reduceStakers tz acc [] = Inr acc"
| "reduceStakers tz acc (staker # rest) =
     (case aggStep tz acc staker of
        Inl e \<Rightarrow> Inl e
      | Inr acc' \<Rightarrow> reduceStakers tz acc' rest)"

definition dailyAggregation :: "int \<Rightarrow> Staker list \<Rightarrow> js_error + aggregation" where
  "dailyAggregation tz stakerList = reduceStakers tz [] stakerList"

subsection \<open>The day range, gap filling and the running totals\<close>

text \<open>
  \<open>todayStr\<close> is the key of the local day of the current time, a parameter of the model.
  The loop formats \<open>currentDate\<close> in the local zone, while \<open>currentDate\<close> starts at
  midnight UTC of the earliest key.
\<close>

function allDaysLoop :: "int \<Rightarrow> int \<Rightarrow> int \<Rightarrow> int list \<Rightarrow> js_error + int list" where
  \<comment> \<open>\<open>while (format(currentDate) <= todayStr) { allDays.push(format(currentDate));
      currentDate.setDate(currentDate.getDate() + 1) }\<close>\<close>
  "allDaysLoop tz currentDate todayStr allDays =
     (case formatDay tz currentDate of
        Inl e \<Rightarrow> Inl e
      | Inr d \<Rightarrow>
          if d \<le> todayStr
          then allDaysLoop tz (currentDate + 86400000) todayStr (allDays @ [d])
          else Inr allDays)"
  by pat_completeness auto
termination
  by (relation "measure (\<lambda>(tz, c, t, _). nat (t + 1 - localDay tz c))")
     (auto simp: formatDay_def localDay_def split: if_splits)

declare allDaysLoop.simps [simp del]

definition allDays :: "int \<Rightarrow> Staker list \<Rightarrow> int \<Rightarrow> js_error + int list" where
  "allDays tz stakerList todayStr =
     (case dailyAggregation tz stakerList of
        Inl e \<Rightarrow> Inl e
      | Inr agg \<Rightarrow>
          let daysFromData = map fst agg
          in if length daysFromData = 0
             then Inl (Error ''No staker data available to determine date range.'')
             else let earliestDayStr = hd (sort daysFromData)
                  in allDaysLoop tz (parseDay earliestDayStr) todayStr [])"

definition fillDay :: "aggregation \<Rightarrow> int \<Rightarrow> DayDelta" where
  \<comment> \<open>\<open>{ day, ...(dailyAggregation[day] || { deltaStakingPower: 0, deltaMeStaked: 0 }) }\<close>;
      a stored delta brings its own \<open>day\<close> property, which the spread puts last\<close>
  "fillDay agg d = (case map_of agg d of Some delta \<Rightarrow> delta | None \<Rightarrow> zeroDelta d)"

definition dailyData :: "int \<Rightarrow> Staker list \<Rightarrow> int \<Rightarrow> js_error + DayDelta list" where
  "dailyData tz stakerList todayStr =
     (case dailyAggregation tz stakerList of
        Inl e \<Rightarrow> Inl e
      | Inr agg \<Rightarrow>
          (case allDays tz stakerList todayStr of
             Inl e \<Rightarrow> Inl e
           | Inr days \<Rightarrow> Inr (map (fillDay agg) days)))"

fun accumulate :: "real \<Rightarrow> real \<Rightarrow> DayDelta list \<Rightarrow> DayTotal list" where
  "accumulate cumulativeStakingPower cumulativeMeStaked [] = []"
| "accumulate cumulativeStakingPower cumulativeMeStaked (item # items) =
     (let power = cumulativeStakingPower + deltaStakingPower item;
          staked = cumulativeMeStaked + deltaMeStaked item
      in \<lparr>day = day item, totalStakingPower = power, totalMeStaked = staked\<rparr>
           # accumulate power staked items)"

definition cumulativeData :: "int \<Rightarrow> Staker list \<Rightarrow> int \<Rightarrow> js_error + DayTotal list" where
  "cumulativeData tz stakerList todayStr =
     (case dailyData tz stakerList todayStr of
        Inl e \<Rightarrow> Inl e
      | Inr items \<Rightarrow> Inr (accumulate 0 0 items))"

subsection \<open>Notions of the specification\<close>

text \<open>
  The day buckets of a record: the local calendar day of its start, and of its end when
  \<open>endTs\<close> is not 0.
\<close>

definition startBucket :: "int \<Rightarrow> Staker \<Rightarrow> int" where
  "startBucket tz s = localDay tz (startTs s * 1000)"

definition endBucket :: "int \<Rightarrow> Staker \<Rightarrow> int option" where
  "endBucket tz s = (if endTs s \<noteq> 0 then Some (localDay tz (endTs s * 1000)) else None)"

text \<open>
  The day buckets that the records touch: the start day of every record and the end day
  of every record that has one.
\<close>

definition observedDays :: "int \<Rightarrow> Staker list \<Rightarrow> int list" where
  "observedDays tz stakerList =
     concat (map (\<lambda>s. startBucket tz s # (case endBucket tz s of None \<Rightarrow> [] | Some e \<Rightarrow> [e]))
               stakerList)"

text \<open>
  A lockup is active on a day when it has started by that day and has not ended by it:
  the end day, when there is one, lies after the day.
\<close>

definition activeOn :: "int \<Rightarrow> int \<Rightarrow> Staker \<Rightarrow> bool" where
  "activeOn tz d s =
     (startBucket tz s \<le> d \<and> (case endBucket tz s of None \<Rightarrow> True | Some e \<Rightarrow> d < e))"

definition activeStakingPower :: "int \<Rightarrow> int \<Rightarrow> Staker list \<Rightarrow> real" where
  "activeStakingPower tz d stakerList =
     sum_list (map uiStakingPower (filter (activeOn tz d) stakerList))"

text \<open>A record is degenerate when its window is empty or reversed.\<close>

definition degenerate :: "Staker \<Rightarrow> bool" where
  "degenerate s = (endTs s \<le> startTs s)"

text \<open>
  The value of the variable \<open>cumulativeStakingPower\<close> when the walk is over: the total
  of the last entry, and the initial 0 when no entry was emitted.
\<close>

definition finalStakingPower :: "DayTotal list \<Rightarrow> real" where
  "finalStakingPower series = (if series = [] then 0 else totalStakingPower (last series))"

text \<open>
  Where the events of a record lie: its start day or its end day is one of the given
  days; its lockup has ended by a day; its end day lies before its start day.
\<close>

definition startsIn :: "int \<Rightarrow> int list \<Rightarrow> Staker \<Rightarrow> bool" where
  "startsIn tz days s = (startBucket tz s \<in> set days)"

definition endsIn :: "int \<Rightarrow> int list \<Rightarrow> Staker \<Rightarrow> bool" where
  "endsIn tz days s = (case endBucket tz s of None \<Rightarrow> False | Some x \<Rightarrow> x \<in> set days)"

definition endsBy :: "int \<Rightarrow> int \<Rightarrow> Staker \<Rightarrow> bool" where
  "endsBy tz d s = (case endBucket tz s of None \<Rightarrow> False | Some x \<Rightarrow> x \<le> d)"

definition endsBeforeStart :: "int \<Rightarrow> Staker \<Rightarrow> bool" where
  "endsBeforeStart tz s =
     (case endBucket tz s of None \<Rightarrow> False | Some x \<Rightarrow> x < startBucket tz s)"

text \<open>
  The dates for which the model of the keys is the code: the days from 0001-01-02 to
  9999-12-30, whose year has four digits, as has the year of the day before and of the
  day after. A record list has such dates when every bucket of every record is such a day.
\<close>

definition modelledDay :: "int \<Rightarrow> bool" where
  "modelledDay d = (- 719162 < d \<and> d < 2932896)"

definition modelledStaker :: "int \<Rightarrow> Staker \<Rightarrow> bool" where
  "modelledStaker tz s =
     (modelledDay (startBucket tz s)
      \<and> (case endBucket tz s of None \<Rightarrow> True | Some e \<Rightarrow> modelledDay e))"

definition modelledDates :: "int \<Rightarrow> Staker list \<Rightarrow> bool" where
  "modelledDates tz stakerList = list_all (modelledStaker tz) stakerList"

text \<open>
  A record whose start, or whose end when \<open>endTs\<close> is not 0, is not a valid date.
\<close>

definition invalidStaker :: "Staker \<Rightarrow> bool" where
  "invalidStaker s =
     (if validDate (startTs s * 1000)
      then (if endTs s \<noteq> 0 then \<not> validDate (endTs s * 1000) else False)
      else True)"

text \<open>
  The offsets of the model: less than a day, to either side of UTC; and those at or east
  of UTC.
\<close>

definition zoneOffset :: "int \<Rightarrow> bool" where
  "zoneOffset tz = (- 86400 < tz \<and> tz < 86400)"


subsection \<open>Auxiliary notions of the proofs\<close>

text \<open>What one record adds to the delta of one day.\<close>

definition contribution :: "int \<Rightarrow> Staker \<Rightarrow> int \<Rightarrow> real" where
  "contribution tz s d = (if startBucket tz s = d then uiStakingPower s else 0)
                        - (if endBucket tz s = Some d then uiStakingPower s else 0)"

text \<open>The invariant of the delta map: every stored delta carries its own key.\<close>

definition dayTagged :: "aggregation \<Rightarrow> bool" where
  "dayTagged acc = (\<forall>(k, v) \<in> set acc. day v = k)"

text \<open>The callback and the reduction when no date is invalid.\<close>

definition addRecord :: "int \<Rightarrow> aggregation \<Rightarrow> Staker \<Rightarrow> aggregation" where
  "addRecord tz acc s = applyStake (startBucket tz s) (endBucket tz s) s acc"

definition deltaMap :: "int \<Rightarrow> Staker list \<Rightarrow> aggregation" where
  "deltaMap tz stakerList = foldl (addRecord tz) [] stakerList"

text \<open>The first day of the series: the local day of midnight UTC of the earliest bucket.\<close>

definition firstDay :: "int \<Rightarrow> Staker list \<Rightarrow> int" where
  "firstDay tz stakerList = localDay tz (parseDay (Min (set (observedDays tz stakerList))))"

section \<open>Metrics engine (utils.ts), continued\<close>

subsection \<open>getPercentileThresholds\<close>

text \<open>
  \<open>Array.prototype.sort\<close> is stable, and the comparator \<open>b.uiStakingPower -
  a.uiStakingPower\<close> orders by descending power: a stable sort on the negated power.
  \<open>Math.floor(n * 0.01)\<close> and \<open>Math.floor(n * 0.1)\<close> are \<open>n div 100\<close> and \<open>n div 10\<close>
  for every array length. An index out of range reads \<open>undefined\<close>, which \<open>|| 0\<close>
  turns into 0, as it does the number 0.
\<close>

record Thresholds =
  top1 :: real
  top10 :: real

definition elemAt :: "'a list \<Rightarrow> nat \<Rightarrow> 'a option" where
  "elemAt xs i = (if i < length xs then Some (xs ! i) else None)"

definition orZero :: "real option \<Rightarrow> real" where
  "orZero x = (case x of None \<Rightarrow> 0 | Some v \<Rightarrow> if v \<noteq> 0 then v else 0)"

definition getPercentileThresholds :: "Staker list \<Rightarrow> Thresholds" where
  "getPercentileThresholds stakerList =
     (let sortedPowers = sort_key (\<lambda>s. - uiStakingPower s) stakerList;
          top1Index = length stakerList div 100;
          top10Index = length stakerList div 10
      in \<lparr>top1 = orZero (map_option uiStakingPower (elemAt sortedPowers top1Index)),
          top10 = orZero (map_option uiStakingPower (elemAt sortedPowers top10Index))\<rparr>)"

text \<open>A list is in descending order of staking power.\<close>

definition descendingByPower :: "Staker list \<Rightarrow> bool" where
  "descendingByPower xs = sorted_wrt (\<lambda>a b. uiStakingPower a \<ge> uiStakingPower b) xs"

section \<open>Snapshot fetcher and rendering (App.tsx)\<close>

subsection \<open>The bundled sample snapshot (mockData.ts)\<close>

definition mockStakers :: "Staker list" where
  "mockStakers =
     [\<lparr>wallet = ''AaBbCcDdEeFfGgHhIiJjKkLlMmNnOoPpQqRrSsTtUu'', uiStakingPower = 400,
        uiAmount = 100, startTs = 1710945600, endTs = 1742481600, duration = 31536000\<rparr>,
      \<lparr>wallet = ''VvWwXxYyZz11223344556677889900AaBbCcDdEe'', uiStakingPower = 20000.01,
        uiAmount = 10000.00, startTs = 1710945600, endTs = 1726617600,
        duration = 15672000\<rparr>]"

definition mockData :: StakerSnapshot where
  "mockData =
     \<lparr>ts = ''2024-03-20T15:30:00.000Z'',
      totalUIStaked = Some 13791417.12,
      totalLockups = 40812,
      totalUIStakingPower = Some 52270945.73,
      stakers = Some mockStakers\<rparr>"

subsection \<open>The component state and the outcome of a fetch\<close>

record app_state =
  data :: "StakerSnapshot option"
  error :: "string option"
  loading :: bool
  usingMockData :: bool

definition initialState :: app_state where
  "initialState = \<lparr>data = None, error = None, loading = True, usingMockData = False\<rparr>"

text \<open>
  What the network gives back to one call of \<open>fetchData\<close>: \<open>fetch\<close> rejects with an
  error that has a message, or it resolves to a response with a status and a body. The
  body does not parse (\<open>response.json()\<close> rejects), or it parses to a value in which
  \<open>result?.result?.data?.json\<close> is falsy, or that path leads to an object.
\<close>

datatype response_body = InvalidJson string | NoEnvelope | Envelope StakerSnapshot

datatype fetch_outcome = Rejected string | Response nat response_body

definition ok :: "nat \<Rightarrow> bool" where
  \<comment> \<open>\<open>response.ok\<close>: the status is in the range 200 to 299\<close>
  "ok status = (200 \<le> status \<and> status \<le> 299)"

function showNat :: "nat \<Rightarrow> string" where
  \<comment> \<open>the decimal digits that the template literal puts in place of \<open>response.status\<close>\<close>
  "showNat n =
     (if n < 10 then [char_of (48 + n)]
      else showNat (n div 10) @ [char_of (48 + n mod 10)])"
  by pat_completeness auto
termination
  by (relation "measure id") auto

declare showNat.simps [simp del]

definition truthyNumber :: "real option \<Rightarrow> bool" where
  \<comment> \<open>an absent field and the number 0 are falsy\<close>
  "truthyNumber x = (case x of None \<Rightarrow> False | Some v \<Rightarrow> v \<noteq> 0)"

definition truthyString :: "string option \<Rightarrow> bool" where
  \<comment> \<open>\<open>null\<close> and the empty string are falsy\<close>
  "truthyString x = (case x of None \<Rightarrow> False | Some v \<Rightarrow> v \<noteq> [])"

definition orElse :: "string option \<Rightarrow> string \<Rightarrow> string" where
  \<comment> \<open>\<open>error || 'Failed to load staker data'\<close>\<close>
  "orElse x dflt = (case x of None \<Rightarrow> dflt | Some v \<Rightarrow> if v \<noteq> [] then v else dflt)"

subsection \<open>fetchData, with the validation of the required fields\<close>

text \<open>
  The body of the \<open>try\<close> block of \<open>fetchData\<close> in the delta-based App.tsx (the second
  version in \<open>src/App.tsx\<close> has the same text): \<open>Inl\<close> is the message of the error that
  reaches the \<open>catch\<close> block, \<open>Inr\<close> the object passed to \<open>setData\<close>.
\<close>

definition missingRequiredFields :: "StakerSnapshot \<Rightarrow> bool" where
  \<comment> \<open>\<open>!stakerData.stakers || !stakerData.totalUIStakingPower || !stakerData.totalUIStaked\<close>;
      an array is truthy also when it is empty\<close>
  "missingRequiredFields stakerData =
     (stakers stakerData = None
      \<or> \<not> truthyNumber (totalUIStakingPower stakerData)
      \<or> \<not> truthyNumber (totalUIStaked stakerData))"

definition tryFetch :: "fetch_outcome \<Rightarrow> string + StakerSnapshot" where
  "tryFetch outcome =
     (case outcome of
        Rejected m \<Rightarrow> Inl m
      | Response status body \<Rightarrow>
          if \<not> ok status then Inl (''HTTP error! status: '' @ showNat status)
          else (case body of
                  InvalidJson m \<Rightarrow> Inl m
                | NoEnvelope \<Rightarrow> Inl ''Invalid data structure received from API''
                | Envelope stakerData \<Rightarrow>
                    if missingRequiredFields stakerData
                    then Inl ''Missing required fields in API response''
                    else Inr stakerData))"

definition fetchData :: "fetch_outcome \<Rightarrow> app_state \<Rightarrow> app_state" where
  "fetchData outcome st =
     (let st1 = st\<lparr>loading := True, error := None, usingMockData := False\<rparr>;
          st2 = (case tryFetch outcome of
                   Inr stakerData \<Rightarrow> st1\<lparr>data := Some stakerData\<rparr>
                 | Inl m \<Rightarrow> st1\<lparr>error := Some m, data := Some mockData, usingMockData := True\<rparr>)
      in st2\<lparr>loading := False\<rparr>)"

subsection \<open>fetchData of the first version of App.tsx\<close>

text \<open>
  The first version in \<open>src/App.tsx\<close> checks the envelope only, and its \<open>catch\<close> block
  does not call \<open>setError\<close>.
\<close>

definition tryFetch_v1 :: "fetch_outcome \<Rightarrow> string + StakerSnapshot" where
  "tryFetch_v1 outcome =
     (case outcome of
        Rejected m \<Rightarrow> Inl m
      | Response status body \<Rightarrow>
          if \<not> ok status then Inl (''HTTP error! status: '' @ showNat status)
          else (case body of
                  InvalidJson m \<Rightarrow> Inl m
                | NoEnvelope \<Rightarrow> Inl ''Invalid data structure''
                | Envelope stakerData \<Rightarrow> Inr stakerData))"

definition fetchData_v1 :: "fetch_outcome \<Rightarrow> app_state \<Rightarrow> app_state" where
  "fetchData_v1 outcome st =
     (let st1 = st\<lparr>loading := True, error := None, usingMockData := False\<rparr>;
          st2 = (case tryFetch_v1 outcome of
                   Inr stakerData \<Rightarrow> st1\<lparr>data := Some stakerData\<rparr>
                 | Inl m \<Rightarrow> st1\<lparr>data := Some mockData, usingMockData := True\<rparr>)
      in st2\<lparr>loading := False\<rparr>)"

subsection \<open>Rendering\<close>

text \<open>
  Every version of \<open>App\<close> starts with the same two early returns; what remains is the
  dashboard for the stored snapshot, with the sample-data notice (\<open>InfoMessage\<close>) when
  \<open>usingMockData\<close> is set.
\<close>

datatype screen = ShowLoading | ShowError string | ShowDashboard StakerSnapshot bool

definition selectScreen :: "app_state \<Rightarrow> screen" where
  "selectScreen st =
     (if loading st then ShowLoading
      else case data st of
             None \<Rightarrow> ShowError (orElse (error st) ''Failed to load staker data'')
           | Some d \<Rightarrow>
               if truthyString (error st)
               then ShowError (orElse (error st) ''Failed to load staker data'')
               else ShowDashboard d (usingMockData st))"

text \<open>
  What is on the screen. The dashboard is represented by the snapshot it shows, the
  presence of the sample-data notice, the series given to the two charts and the
  thresholds; the formatting of numbers and the average duration are left out.
  The header of the dashboard prints \<open>format(new Date(data.ts), 'PPP p')\<close>, which
  throws \<open>RangeError\<close> when the string \<open>ts\<close> is not a date; which strings are dates
  is a parameter \<open>parsesAsDate\<close> of \<open>App\<close>. \<open>BoundaryFallback\<close> is the panel of
  \<open>ErrorBoundary\<close>.
\<close>

datatype view =
    LoadingState
  | ErrorMessage string
  | Dashboard StakerSnapshot bool "DayTotal list" Thresholds
  | BoundaryFallback string

definition App :: "int \<Rightarrow> (string \<Rightarrow> bool) \<Rightarrow> app_state \<Rightarrow> int \<Rightarrow> js_error + view" where
  \<comment> \<open>the delta-based version; \<open>Inl\<close> is an error thrown while rendering\<close>
  "App tz parsesAsDate st todayStr =
     (case selectScreen st of
        ShowLoading \<Rightarrow> Inr LoadingState
      | ShowError m \<Rightarrow> Inr (ErrorMessage m)
      | ShowDashboard d notice \<Rightarrow>
          (case stakers d of
             None \<Rightarrow> Inl (TypeError ''data.stakers is undefined'')
           | Some stakerList \<Rightarrow>
               (case cumulativeData tz stakerList todayStr of
                  Inl e \<Rightarrow> Inl e
                | Inr series \<Rightarrow>
                    if parsesAsDate (ts d)
                    then Inr (Dashboard d notice series (getPercentileThresholds stakerList))
                    else Inl (RangeError ''Invalid time value''))))"

definition ErrorBoundary :: "js_error + view \<Rightarrow> view" where
  \<comment> \<open>index.tsx renders \<open>App\<close> inside \<open>ErrorBoundary\<close>\<close>
  "ErrorBoundary r = (case r of Inl e \<Rightarrow> BoundaryFallback (message e) | Inr v \<Rightarrow> v)"

text \<open>The fetch outcomes that the specification calls failures.\<close>

definition isFailure :: "fetch_outcome \<Rightarrow> bool" where
  "isFailure outcome =
     (case outcome of
        Rejected m \<Rightarrow> True
      | Response status body \<Rightarrow>
          if ok status
          then (case body of
                  InvalidJson m \<Rightarrow> True
                | NoEnvelope \<Rightarrow> True
                | Envelope stakerData \<Rightarrow> missingRequiredFields stakerData)
          else True)"

section \<open>Example inputs\<close>

text \<open>
  A record whose window is reversed: it starts on day 10 and ends on day 5.
\<close>

definition reversedStaker :: Staker where
  "reversedStaker =
     \<lparr>wallet = ''reversed'', uiStakingPower = 1, uiAmount = 1,
      startTs = 864000, endTs = 432000, duration = - 432000\<rparr>"

text \<open>A well-formed record that runs from day 10 to day 20.\<close>

definition plainStaker :: Staker where
  "plainStaker =
     \<lparr>wallet = ''plain'', uiStakingPower = 7, uiAmount = 3,
      startTs = 864000, endTs = 1728000, duration = 864000\<rparr>"

text \<open>
  Two records that start on the days 19802 and 19812 and end a year later.
\<close>

definition earlierStaker :: Staker where
  "earlierStaker =
     \<lparr>wallet = ''earlier'', uiStakingPower = 400, uiAmount = 100,
      startTs = 1710945600, endTs = 1742481600, duration = 31536000\<rparr>"

definition laterStaker :: Staker where
  "laterStaker =
     \<lparr>wallet = ''later'', uiStakingPower = 50, uiAmount = 25,
      startTs = 1711809600, endTs = 1743345600, duration = 31536000\<rparr>"


text \<open>
  A record without an end whose start is one second after the last valid date.
\<close>

definition farFutureStaker :: Staker where
  "farFutureStaker =
     \<lparr>wallet = ''far future'', uiStakingPower = 1, uiAmount = 1,
      startTs = 8640000000001, endTs = 0, duration = 0\<rparr>"

text \<open>
  Live payloads that are complete: one with an empty list of records, one in which the
  total staked is the number 0.
\<close>

definition emptySnapshot :: StakerSnapshot where
  "emptySnapshot = mockData\<lparr>stakers := Some []\<rparr>"

definition zeroStaked :: StakerSnapshot where
  "zeroStaked = mockData\<lparr>totalUIStaked := Some 0\<rparr>"

section \<open>Properties of calcVotingPower\<close>

lemma clamp01_mono: "s \<le> t \<Longrightarrow> clamp01 s \<le> clamp01 t"
  by (simp add: clamp01_def max_def min_def)

lemma calcVotingPower_live:
  assumes "now \<le> e" and "s < e"
  shows "calcVotingPower a s e mn mx p now =
           (if e - s \<le> mn then a
            else if mx \<le> e - s then a * p / 100
            else a + (a * p / 100 - a) * (e - s - mn) / (mx - mn))"
  using assms by (auto simp: calcVotingPower_def Let_def)

lemma calcVotingPower_clamp:
  assumes "now \<le> e" and "s < e" and "mn < mx"
  shows "calcVotingPower a s e mn mx p now =
           a + (a * p / 100 - a) * clamp01 ((e - s - mn) / (mx - mn))"
proof -
  let ?d = "e - s"
  have r: "0 < mx - mn" using assms(3) by simp
  consider (lo) "?d \<le> mn" | (hi) "mn < ?d" "mx \<le> ?d" | (mid) "mn < ?d" "?d < mx"
    by linarith
  then show ?thesis
  proof cases
    case lo
    then have "(?d - mn) / (mx - mn) \<le> 0"
      using r by (simp add: divide_le_0_iff)
    then have "clamp01 ((?d - mn) / (mx - mn)) = 0"
      by (simp add: clamp01_def max_def min_def)
    with lo assms show ?thesis by (simp add: calcVotingPower_live)
  next
    case hi
    then have "1 \<le> (?d - mn) / (mx - mn)"
      using r by (simp add: le_divide_eq)
    then have "clamp01 ((?d - mn) / (mx - mn)) = 1"
      by (simp add: clamp01_def max_def min_def)
    with hi assms show ?thesis by (simp add: calcVotingPower_live)
  next
    case mid
    then have "0 \<le> (?d - mn) / (mx - mn)" "(?d - mn) / (mx - mn) \<le> 1"
      using r by (simp_all add: divide_le_eq)
    then have "clamp01 ((?d - mn) / (mx - mn)) = (?d - mn) / (mx - mn)"
      by (simp add: clamp01_def max_def min_def)
    with mid assms show ?thesis by (simp add: calcVotingPower_live)
  qed
qed

text \<open>
  Claim C1. \<open>calcVotingPower\<close> equals the piecewise reference definition on every input:
  0 when \<open>now > endTs\<close> or \<open>endTs \<le> startTs\<close>, otherwise \<open>amount\<close> up to the minimum
  duration, \<open>maxPower\<close> from the saturation duration on, and the linear interpolation in
  between. For amount 100, minimum duration 0, saturation duration 31536000, target 400
  and a duration of 15768000 with \<open>now < endTs\<close> the result is 250.
\<close>

theorem C1_calcVotingPower_piecewise:
  "calcVotingPower a s e mn mx p now = computeVotingPower_spec a s e mn mx p now
   \<and> (e' - s' = 15768000 \<and> now' < e'
        \<longrightarrow> calcVotingPower 100 s' e' 0 31536000 400 now' = 250)"
proof
  show "calcVotingPower a s e mn mx p now = computeVotingPower_spec a s e mn mx p now"
    by (auto simp: calcVotingPower_def computeVotingPower_spec_def Let_def)
next
  show "e' - s' = 15768000 \<and> now' < e'
          \<longrightarrow> calcVotingPower 100 s' e' 0 31536000 400 now' = 250"
  proof
    assume h: "e' - s' = 15768000 \<and> now' < e'"
    then have "now' \<le> e'" "s' < e'" by simp_all
    then show "calcVotingPower 100 s' e' 0 31536000 400 now' = 250"
      using h by (simp add: calcVotingPower_live)
  qed
qed

theorem C1_calcVotingPower_piecewise_witness:
  "calcVotingPower 100 0 15768000 0 31536000 400 0
     = computeVotingPower_spec 100 0 15768000 0 31536000 400 0
   \<and> (15768000 - 0 = (15768000::real) \<and> (0::real) < 15768000)
   \<and> calcVotingPower 100 0 15768000 0 31536000 400 0 = 250"
  using C1_calcVotingPower_piecewise [of 100 0 15768000 0 31536000 400 0 15768000 0 0]
  by simp

text \<open>
  Claim C2, as stated: with \<open>now \<le> endTs\<close>, \<open>endTs > startTs\<close> and
  \<open>maxSaturationDuration \<le> minDuration\<close> the result is 0 for every duration. The code
  tests the duration first, so the claim fails: with amount 100, a window of 10 seconds,
  minimum duration 20 and saturation duration 10 the result is the amount.
\<close>

theorem C2_misconfigured_range_counterexample:
  "(0::real) \<le> 10 \<and> (10::real) > 0 \<and> (10::real) \<le> 20
   \<and> calcVotingPower 100 0 10 20 10 400 0 = 100
   \<and> calcVotingPower 100 0 10 20 10 400 0 \<noteq> 0"
  by (simp add: calcVotingPower_def)

text \<open>
  Claim C2, amended: with \<open>now \<le> endTs\<close>, \<open>endTs > startTs\<close> and
  \<open>maxSaturationDuration \<le> minDuration\<close>, \<open>calcVotingPower\<close> returns the amount when
  the duration is at most the minimum duration and \<open>maxPower\<close> otherwise; the branch that
  returns 0 for a non-positive range is never taken.
\<close>

theorem C2_misconfigured_range:
  assumes "now \<le> e" and "e > s" and "mx \<le> mn"
  shows "calcVotingPower a s e mn mx p now =
           (if e - s \<le> mn then a else a * p / 100)"
  using assms by (auto simp: calcVotingPower_def Let_def)

theorem C2_misconfigured_range_witness:
  "(0::real) \<le> 30 \<and> (30::real) > 0 \<and> (10::real) \<le> 20
   \<and> calcVotingPower 100 0 30 20 10 400 0 = (if (30::real) - 0 \<le> 20 then 100 else 100 * 400 / 100)
   \<and> calcVotingPower 100 0 30 20 10 400 0 = 400"
  using C2_misconfigured_range [of 0 30 0 10 20 100 400]
  by simp

text \<open>
  Claim C8, as stated, holds for every amount. For a negative amount \<open>maxPower\<close> lies
  below the amount when the target is above 100, and the curve falls: with amount -100 and
  target 400 the value at duration 5 is -250 and at duration 10 it is -400.
\<close>

theorem C8_monotonicity_counterexample:
  "(0::real) < 10 \<and> (400::real) \<ge> 100 \<and> (5::real) \<le> 10
   \<and> calcVotingPower (-100) 0 5 0 10 400 0 = -250
   \<and> calcVotingPower (-100) 0 10 0 10 400 0 = -400
   \<and> \<not> calcVotingPower (-100) 0 5 0 10 400 0 \<le> calcVotingPower (-100) 0 10 0 10 400 0"
  by (simp add: calcVotingPower_def)

text \<open>
  Claim C8, amended: for every amount that is not negative, every
  \<open>minDuration < maxSaturationDuration\<close> and every target percentage, on inputs with
  \<open>now \<le> endTs\<close> and \<open>endTs > startTs\<close>, \<open>calcVotingPower\<close> is non-decreasing in the
  duration \<open>endTs - startTs\<close> when the target is at least 100 and non-increasing when it
  is below 100; it equals the amount at the minimum duration and
  \<open>maxPower = amount * targetVotingPct / 100\<close> at the saturation duration.
\<close>

theorem C8_monotonicity:
  assumes "0 \<le> a" and "mn < mx"
    and "now1 \<le> e1" and "e1 > s1" and "now2 \<le> e2" and "e2 > s2"
    and "e1 - s1 \<le> e2 - s2"
  shows "(p \<ge> 100 \<longrightarrow>
            calcVotingPower a s1 e1 mn mx p now1 \<le> calcVotingPower a s2 e2 mn mx p now2)
       \<and> (p < 100 \<longrightarrow>
            calcVotingPower a s2 e2 mn mx p now2 \<le> calcVotingPower a s1 e1 mn mx p now1)
       \<and> (e1 - s1 = mn \<longrightarrow> calcVotingPower a s1 e1 mn mx p now1 = a)
       \<and> (e1 - s1 = mx \<longrightarrow> calcVotingPower a s1 e1 mn mx p now1 = a * p / 100)"
proof -
  let ?t1 = "clamp01 ((e1 - s1 - mn) / (mx - mn))"
  let ?t2 = "clamp01 ((e2 - s2 - mn) / (mx - mn))"
  have r: "0 < mx - mn" using assms(2) by simp
  have c1: "calcVotingPower a s1 e1 mn mx p now1 = a + (a * p / 100 - a) * ?t1"
    using assms by (simp add: calcVotingPower_clamp)
  have c2: "calcVotingPower a s2 e2 mn mx p now2 = a + (a * p / 100 - a) * ?t2"
    using assms by (simp add: calcVotingPower_clamp)
  have "(e1 - s1 - mn) / (mx - mn) \<le> (e2 - s2 - mn) / (mx - mn)"
    using assms(7) r by (simp add: divide_right_mono)
  then have t: "?t1 \<le> ?t2" by (rule clamp01_mono)
  have up: "p \<ge> 100 \<longrightarrow>
      calcVotingPower a s1 e1 mn mx p now1 \<le> calcVotingPower a s2 e2 mn mx p now2"
  proof
    assume "p \<ge> 100"
    then have "a * 100 \<le> a * p" using assms(1) by (rule mult_left_mono)
    then have "0 \<le> a * p / 100 - a" by simp
    then have "(a * p / 100 - a) * ?t1 \<le> (a * p / 100 - a) * ?t2"
      using t by (rule mult_left_mono [rotated])
    then show "calcVotingPower a s1 e1 mn mx p now1 \<le> calcVotingPower a s2 e2 mn mx p now2"
      by (simp only: c1 c2 add_left_mono)
  qed
  have down: "p < 100 \<longrightarrow>
      calcVotingPower a s2 e2 mn mx p now2 \<le> calcVotingPower a s1 e1 mn mx p now1"
  proof
    assume "p < 100"
    then have "p \<le> 100" by simp
    then have "a * p \<le> a * 100" using assms(1) by (rule mult_left_mono)
    then have "a * p / 100 - a \<le> 0" by simp
    then have "(a * p / 100 - a) * ?t2 \<le> (a * p / 100 - a) * ?t1"
      using t by (rule mult_left_mono_neg [rotated])
    then show "calcVotingPower a s2 e2 mn mx p now2 \<le> calcVotingPower a s1 e1 mn mx p now1"
      by (simp only: c1 c2 add_left_mono)
  qed
  have lo: "e1 - s1 = mn \<longrightarrow> calcVotingPower a s1 e1 mn mx p now1 = a"
    using assms by (simp add: calcVotingPower_live)
  have hi: "e1 - s1 = mx \<longrightarrow> calcVotingPower a s1 e1 mn mx p now1 = a * p / 100"
    using assms by (simp add: calcVotingPower_live)
  from up down lo hi show ?thesis by blast
qed

theorem C8_monotonicity_witness:
  "(0::real) \<le> 100 \<and> (0::real) < 10 \<and> (0::real) \<le> 5 \<and> (5::real) > 0
   \<and> (0::real) \<le> 10 \<and> (10::real) > 0 \<and> (5::real) - 0 \<le> 10 - 0
   \<and> calcVotingPower 100 0 5 0 10 400 0 \<le> calcVotingPower 100 0 10 0 10 400 0
   \<and> calcVotingPower 100 0 5 0 10 400 0 = 250
   \<and> calcVotingPower 100 0 10 0 10 400 0 = 400"
  using C8_monotonicity [where a = 100 and mn = 0 and mx = 10 and ?now1.0 = 0 and ?e1.0 = 5
      and ?s1.0 = 0 and ?now2.0 = 0 and ?e2.0 = 10 and ?s2.0 = 0 and p = 400]
  by (simp add: calcVotingPower_def)

section \<open>Properties of the aggregator\<close>

subsection \<open>Dates\<close>

lemma localDay_next: "localDay tz (c + 86400000) = localDay tz c + 1"
proof -
  have "c + 86400000 + tz * 1000 = (c + tz * 1000) + 86400000" by simp
  then show ?thesis unfolding localDay_def by (simp only: div_add_self2)
qed

lemma day_split:
  fixes x :: int
  shows "x = 86400000 * (x div 86400000) + x mod 86400000"
    and "0 \<le> x mod 86400000" and "x mod 86400000 < 86400000"
  by simp_all

lemma localDay_parse:
  assumes "zoneOffset tz"
  shows "localDay tz (parseDay d) = (if tz < 0 then d - 1 else d)"
proof (cases "tz < 0")
  case True
  have "d * 86400000 + tz * 1000 = 86400000 * (d - 1) + (86400000 + tz * 1000)" by simp
  moreover have "0 \<le> 86400000 + tz * 1000" "86400000 + tz * 1000 < 86400000"
    using assms True by (simp_all add: zoneOffset_def)
  ultimately have "(d * 86400000 + tz * 1000) div 86400000 = d - 1"
    by (rule int_div_pos_eq)
  then show ?thesis using True by (simp add: localDay_def parseDay_def)
next
  case False
  have "d * 86400000 + tz * 1000 = 86400000 * d + tz * 1000" by simp
  moreover have "0 \<le> tz * 1000" "tz * 1000 < 86400000"
    using assms False by (simp_all add: zoneOffset_def)
  ultimately have "(d * 86400000 + tz * 1000) div 86400000 = d"
    by (rule int_div_pos_eq)
  then show ?thesis using False by (simp add: localDay_def parseDay_def)
qed

lemma validDate_modelled:
  assumes "zoneOffset tz" and "modelledDay (localDay tz ms)"
  shows "validDate ms"
proof -
  note s = day_split [of "ms + tz * 1000"]
  show ?thesis
    using assms s unfolding modelledDay_def validDate_def localDay_def zoneOffset_def
    by linarith
qed

lemma validDate_next:
  assumes "zoneOffset tz" and "validDate c" and "localDay tz c \<le> t" and "t < 2932896"
  shows "validDate (c + 86400000)"
proof -
  note s = day_split [of "c + tz * 1000"]
  show ?thesis
    using assms s unfolding validDate_def localDay_def zoneOffset_def
    by linarith
qed

lemma validDate_parse: "modelledDay d \<Longrightarrow> validDate (parseDay d)"
  unfolding modelledDay_def validDate_def parseDay_def by linarith

lemma allDaysLoop_upto:
  "zoneOffset tz \<Longrightarrow> validDate c \<Longrightarrow> t < 2932896 \<Longrightarrow>
     allDaysLoop tz c t acc = Inr (acc @ [localDay tz c..t])"
proof (induction tz c t acc rule: allDaysLoop.induct)
  case (1 tz c t acc)
  have f: "formatDay tz c = Inr (localDay tz c)"
    using "1.prems"(2) by (simp add: formatDay_def)
  show ?case
  proof (cases "localDay tz c \<le> t")
    case True
    have v: "validDate (c + 86400000)"
      using "1.prems" True by (simp add: validDate_next)
    have "allDaysLoop tz (c + 86400000) t (acc @ [localDay tz c])
            = Inr ((acc @ [localDay tz c]) @ [localDay tz (c + 86400000)..t])"
      using f True "1.prems"(1) v "1.prems"(3) by (rule "1.IH")
    then show ?thesis
      using f True by (subst allDaysLoop.simps) (simp add: localDay_next upto_rec1)
  next
    case False
    then show ?thesis using f by (subst allDaysLoop.simps) simp
  qed
qed

subsection \<open>The delta map\<close>

lemma map_of_modifyDay:
  "map_of (modifyDay k f acc) d = (if d = k then map_option f (map_of acc d) else map_of acc d)"
  by (induction acc) (auto simp: modifyDay_def)

lemma map_of_ensureDay:
  "map_of (ensureDay k acc) d = (if d = k \<and> map_of acc k = None then Some (zeroDelta k) else map_of acc d)"
  by (auto simp: ensureDay_def map_add_def split: option.splits)

lemma keys_modifyDay: "map fst (modifyDay k f acc) = map fst acc"
  by (induction acc) (auto simp: modifyDay_def)

lemma keys_ensureDay: "set (map fst (ensureDay k acc)) = insert k (set (map fst acc))"
  by (auto simp: ensureDay_def split: option.splits dest!: map_of_SomeD intro: rev_image_eqI)

lemma fillDay_addRecord:
  "deltaStakingPower (fillDay (addRecord tz acc s) d)
     = deltaStakingPower (fillDay acc d) + contribution tz s d"
  by (auto simp: fillDay_def addRecord_def applyStake_def Let_def map_of_modifyDay map_of_ensureDay
       contribution_def addStake_def subtractStake_def zeroDelta_def split: option.splits)

lemma fillDay_foldl:
  "deltaStakingPower (fillDay (foldl (addRecord tz) acc ss) d)
     = deltaStakingPower (fillDay acc d) + sum_list (map (\<lambda>s. contribution tz s d) ss)"
  by (induction ss arbitrary: acc) (simp_all add: fillDay_addRecord)

lemma fillDay_deltaMap:
  "deltaStakingPower (fillDay (deltaMap tz ss) d) = sum_list (map (\<lambda>s. contribution tz s d) ss)"
proof -
  have "deltaStakingPower (fillDay [] d) = 0" by (simp add: fillDay_def zeroDelta_def)
  then show ?thesis unfolding deltaMap_def by (simp add: fillDay_foldl)
qed

lemma keys_addRecord:
  "set (map fst (addRecord tz acc s)) =
     set (map fst acc)
     \<union> set (startBucket tz s # (case endBucket tz s of None \<Rightarrow> [] | Some e \<Rightarrow> [e]))"
  by (auto simp: addRecord_def applyStake_def Let_def keys_modifyDay keys_ensureDay
           simp del: set_map split: option.splits)

lemma keys_foldl:
  "set (map fst (foldl (addRecord tz) acc ss)) = set (map fst acc) \<union> set (observedDays tz ss)"
  by (induction ss arbitrary: acc) (auto simp: keys_addRecord observedDays_def simp del: set_map)

lemma keys_deltaMap:
  "set (map fst (deltaMap tz ss)) = set (observedDays tz ss)"
  by (simp add: deltaMap_def keys_foldl del: set_map)

lemma dayTagged_ensureDay: "dayTagged acc \<Longrightarrow> dayTagged (ensureDay k acc)"
  by (auto simp: dayTagged_def ensureDay_def zeroDelta_def split: option.splits)

lemma dayTagged_modifyDay:
  "dayTagged acc \<Longrightarrow> (\<And>v. day (f v) = day v) \<Longrightarrow> dayTagged (modifyDay k f acc)"
  by (auto simp: dayTagged_def modifyDay_def split: if_splits)

lemma dayTagged_addRecord: "dayTagged acc \<Longrightarrow> dayTagged (addRecord tz acc s)"
  by (auto simp: addRecord_def applyStake_def Let_def addStake_def subtractStake_def
           intro!: dayTagged_modifyDay dayTagged_ensureDay split: option.splits)

lemma dayTagged_foldl: "dayTagged acc \<Longrightarrow> dayTagged (foldl (addRecord tz) acc ss)"
  by (induction ss arbitrary: acc) (simp_all add: dayTagged_addRecord)

lemma day_fillDay: "day (fillDay (deltaMap tz ss) d) = d"
proof -
  have "dayTagged []" by (simp add: dayTagged_def)
  then have "dayTagged (deltaMap tz ss)"
    unfolding deltaMap_def by (rule dayTagged_foldl)
  then show ?thesis
    by (auto simp: fillDay_def zeroDelta_def dayTagged_def split: option.splits dest!: map_of_SomeD)
qed


subsection \<open>The reduction with its errors\<close>

lemma aggStep_valid:
  "\<not> invalidStaker s \<Longrightarrow> aggStep tz acc s = Inr (addRecord tz acc s)"
  by (auto simp: invalidStaker_def aggStep_def startDay_def endDay_def formatDay_def
        addRecord_def startBucket_def endBucket_def split: if_splits)

lemma aggStep_invalid:
  "invalidStaker s \<Longrightarrow> aggStep tz acc s = Inl (RangeError ''Invalid time value'')"
  by (auto simp: invalidStaker_def aggStep_def startDay_def endDay_def formatDay_def
        split: if_splits)

lemma reduceStakers_valid:
  "filter invalidStaker ss = [] \<Longrightarrow>
     reduceStakers tz acc ss = Inr (foldl (addRecord tz) acc ss)"
  by (induction ss arbitrary: acc) (auto simp: aggStep_valid split: if_splits)

lemma reduceStakers_invalid:
  "filter invalidStaker ss \<noteq> [] \<Longrightarrow>
     reduceStakers tz acc ss = Inl (RangeError ''Invalid time value'')"
proof (induction ss arbitrary: acc)
  case Nil
  then show ?case by simp
next
  case (Cons s ss)
  show ?case
  proof (cases "invalidStaker s")
    case True
    then show ?thesis by (simp add: aggStep_invalid)
  next
    case False
    then have "filter invalidStaker ss \<noteq> []" using Cons.prems by simp
    then show ?thesis using False Cons.IH by (simp add: aggStep_valid)
  qed
qed

lemma modelled_not_invalid:
  assumes "zoneOffset tz" and "modelledStaker tz s"
  shows "\<not> invalidStaker s"
proof -
  have "validDate (startTs s * 1000)"
    using assms by (auto simp: modelledStaker_def startBucket_def intro: validDate_modelled)
  moreover have "endTs s \<noteq> 0 \<Longrightarrow> validDate (endTs s * 1000)"
    using assms by (auto simp: modelledStaker_def endBucket_def intro: validDate_modelled)
  ultimately show ?thesis by (auto simp: invalidStaker_def)
qed

lemma modelledDates_valid:
  "zoneOffset tz \<Longrightarrow> modelledDates tz ss \<Longrightarrow> filter invalidStaker ss = []"
  by (auto simp: modelledDates_def list_all_iff filter_empty_conv dest: modelled_not_invalid)

lemma dailyAggregation_modelled:
  "zoneOffset tz \<Longrightarrow> modelledDates tz ss \<Longrightarrow> dailyAggregation tz ss = Inr (deltaMap tz ss)"
  by (simp add: dailyAggregation_def deltaMap_def reduceStakers_valid modelledDates_valid)

lemma dailyAggregation_invalid:
  "filter invalidStaker ss \<noteq> [] \<Longrightarrow>
     dailyAggregation tz ss = Inl (RangeError ''Invalid time value'')"
  by (simp add: dailyAggregation_def reduceStakers_invalid)


subsection \<open>Sums of deltas\<close>

lemma hd_sort_Min: "xs \<noteq> [] \<Longrightarrow> hd (sort xs) = Min (set xs)"
  for xs :: "int list"
proof -
  assume ne: "xs \<noteq> []"
  then have "sort xs \<noteq> []" by (metis length_0_conv length_sort)
  then obtain y ys where s: "sort xs = y # ys" by (cases "sort xs") auto
  have "sorted (y # ys)" by (metis s sorted_sort)
  then have "\<forall>z \<in> set (y # ys). y \<le> z" by auto
  moreover have "set (y # ys) = set xs" by (metis s set_sort)
  ultimately have "Min (set xs) = y"
    by (intro Min_eqI) auto
  then show ?thesis by (simp add: s)
qed

lemma sum_list_delta_upto:
  "sum_list (map (\<lambda>d. if x = d then (c::real) else 0) [e..t]) = (if x \<in> set [e..t] then c else 0)"
proof -
  have "sum_list (map (\<lambda>d. if x = d then c else 0) [e..t]) = (\<Sum>d\<in>set [e..t]. if x = d then c else 0)"
    by (rule sum_list_distinct_conv_sum_set) simp
  also have "\<dots> = (if x \<in> set [e..t] then c else 0)"
    by (simp add: sum.delta')
  finally show ?thesis .
qed

lemma sum_list_swap:
  "sum_list (map (\<lambda>d. sum_list (map (\<lambda>s. (f s d :: real)) ss)) ds)
     = sum_list (map (\<lambda>s. sum_list (map (\<lambda>d. f s d) ds)) ss)"
  by (induction ss) (simp_all add: sum_list_addf)

lemma endsIn_ex: "endsIn tz days s = (\<exists>x. endBucket tz s = Some x \<and> x \<in> set days)"
  by (simp add: endsIn_def split: option.splits)

lemma endsBy_ex: "endsBy tz d s = (\<exists>x. endBucket tz s = Some x \<and> x \<le> d)"
  by (simp add: endsBy_def split: option.splits)

lemma sum_contribution_upto:
  "sum_list (map (contribution tz s) [e..t]) =
     (if startsIn tz [e..t] s then uiStakingPower s else 0)
     - (if endsIn tz [e..t] s then uiStakingPower s else 0)"
proof -
  have "sum_list (map (contribution tz s) [e..t]) =
          sum_list (map (\<lambda>d. if startBucket tz s = d then uiStakingPower s else 0) [e..t])
          - sum_list (map (\<lambda>d. if endBucket tz s = Some d then uiStakingPower s else 0) [e..t])"
    unfolding contribution_def by (simp add: sum_list_subtractf)
  also have "sum_list (map (\<lambda>d. if startBucket tz s = d then uiStakingPower s else 0) [e..t])
          = (if startsIn tz [e..t] s then uiStakingPower s else 0)"
    unfolding startsIn_def by (rule sum_list_delta_upto)
  also have "sum_list (map (\<lambda>d. if endBucket tz s = Some d then uiStakingPower s else 0) [e..t])
          = (if endsIn tz [e..t] s then uiStakingPower s else 0)"
  proof (cases "endBucket tz s")
    case None
    then show ?thesis by (simp add: endsIn_def)
  next
    case (Some x)
    then show ?thesis
      using sum_list_delta_upto [of x "uiStakingPower s" e t] by (simp add: endsIn_def)
  qed
  finally show ?thesis .
qed

lemma sum_deltas_upto:
  "sum_list (map deltaStakingPower (map (fillDay (deltaMap tz ss)) [e..t])) =
     sum_list (map uiStakingPower (filter (startsIn tz [e..t]) ss))
     - sum_list (map uiStakingPower (filter (endsIn tz [e..t]) ss))"
proof -
  have "sum_list (map deltaStakingPower (map (fillDay (deltaMap tz ss)) [e..t]))
        = sum_list (map (\<lambda>d. sum_list (map (\<lambda>s. contribution tz s d) ss)) [e..t])"
    by (simp add: o_def fillDay_deltaMap)
  also have "\<dots> = sum_list (map (\<lambda>s. sum_list (map (contribution tz s) [e..t])) ss)"
    by (rule sum_list_swap)
  also have "\<dots> = sum_list (map (\<lambda>s. (if startsIn tz [e..t] s then uiStakingPower s else 0)
     - (if endsIn tz [e..t] s then uiStakingPower s else 0)) ss)"
    by (simp only: sum_contribution_upto)
  also have "\<dots> = sum_list (map uiStakingPower (filter (startsIn tz [e..t]) ss))
     - sum_list (map uiStakingPower (filter (endsIn tz [e..t]) ss))"
    by (simp only: sum_list_subtractf sum_list_map_filter')
  finally show ?thesis .
qed

lemma day_accumulate: "map day (accumulate a b items) = map day items"
  by (induction items arbitrary: a b) (simp_all add: Let_def)

lemma length_accumulate: "length (accumulate a b items) = length items"
  by (induction items arbitrary: a b) (simp_all add: Let_def)

lemma last_accumulate:
  "items \<noteq> [] \<Longrightarrow>
     totalStakingPower (last (accumulate a b items)) = a + sum_list (map deltaStakingPower items)"
proof (induction items arbitrary: a b)
  case Nil
  then show ?case by simp
next
  case (Cons item items)
  show ?case
  proof (cases "items = []")
    case True
    then show ?thesis by (simp add: Let_def)
  next
    case False
    then have "accumulate (a + deltaStakingPower item) (b + deltaMeStaked item) items \<noteq> []"
      by (metis length_accumulate length_0_conv)
    then show ?thesis using Cons.IH [OF False] by (simp add: Let_def)
  qed
qed

lemma final_accumulate:
  "finalStakingPower (accumulate 0 0 items) = sum_list (map deltaStakingPower items)"
proof (cases "items = []")
  case True
  then show ?thesis by (simp add: finalStakingPower_def)
next
  case False
  then have "accumulate 0 0 items \<noteq> []" by (metis length_accumulate length_0_conv)
  then show ?thesis using last_accumulate [OF False, of 0 0] by (simp add: finalStakingPower_def)
qed

lemma day_filled: "map day (map (fillDay (deltaMap tz ss)) ds) = ds"
  by (induction ds) (simp_all add: day_fillDay)

lemma day_series:
  "map day (accumulate a b (map (fillDay (deltaMap tz ss)) ds)) = ds"
  by (simp only: day_accumulate day_filled)

subsection \<open>The pipeline on dates of the model\<close>

lemma observedDays_nonempty: "ss \<noteq> [] \<Longrightarrow> observedDays tz ss \<noteq> []"
  by (cases ss) (simp_all add: observedDays_def)

lemma observedDays_modelled:
  "modelledDates tz ss \<Longrightarrow> d \<in> set (observedDays tz ss) \<Longrightarrow> modelledDay d"
  by (auto simp: modelledDates_def list_all_iff observedDays_def modelledStaker_def
           split: option.splits)

lemma Min_observed_le:
  assumes "s \<in> set ss"
  shows "Min (set (observedDays tz ss)) \<le> startBucket tz s"
    and "endBucket tz s = Some x \<Longrightarrow> Min (set (observedDays tz ss)) \<le> x"
proof -
  have "startBucket tz s \<in> set (observedDays tz ss)"
    using assms by (auto simp: observedDays_def)
  then show "Min (set (observedDays tz ss)) \<le> startBucket tz s" by simp
  assume "endBucket tz s = Some x"
  then have "x \<in> set (observedDays tz ss)"
    using assms by (force simp: observedDays_def)
  then show "Min (set (observedDays tz ss)) \<le> x" by simp
qed

lemma Min_observed_modelled:
  assumes "ss \<noteq> []" and "modelledDates tz ss"
  shows "modelledDay (Min (set (observedDays tz ss)))"
proof -
  have "set (observedDays tz ss) \<noteq> {}" using observedDays_nonempty [OF assms(1)] by simp
  then have "Min (set (observedDays tz ss)) \<in> set (observedDays tz ss)"
    by (intro Min_in) simp_all
  then show ?thesis using assms(2) by (rule observedDays_modelled [rotated])
qed

lemma firstDay_eq:
  "zoneOffset tz \<Longrightarrow>
     firstDay tz ss = (if tz < 0 then Min (set (observedDays tz ss)) - 1
                       else Min (set (observedDays tz ss)))"
  by (simp add: firstDay_def localDay_parse)


lemma firstDay_le: "zoneOffset tz \<Longrightarrow> firstDay tz ss \<le> Min (set (observedDays tz ss))"
  by (simp add: firstDay_eq)

lemma allDays_Nil:
  "allDays tz [] t = Inl (Error ''No staker data available to determine date range.'')"
  by (simp add: allDays_def dailyAggregation_def)

lemma allDays_modelled:
  assumes "ss \<noteq> []" and "zoneOffset tz" and "modelledDates tz ss" and "modelledDay t"
  shows "allDays tz ss t = Inr [firstDay tz ss..t]"
proof -
  let ?keys = "map fst (deltaMap tz ss)"
  have agg: "dailyAggregation tz ss = Inr (deltaMap tz ss)"
    using assms(2,3) by (rule dailyAggregation_modelled)
  have k: "set ?keys = set (observedDays tz ss)" by (rule keys_deltaMap)
  have "set (observedDays tz ss) \<noteq> {}" using observedDays_nonempty [OF assms(1)] by simp
  then have ne: "?keys \<noteq> []" using k by (metis set_empty)
  then have e: "hd (sort ?keys) = Min (set (observedDays tz ss))"
    using hd_sort_Min [OF ne] k by simp
  have v: "validDate (parseDay (Min (set (observedDays tz ss))))"
    using Min_observed_modelled [OF assms(1,3)] by (rule validDate_parse)
  have t: "t < 2932896" using assms(4) by (simp add: modelledDay_def)
  have "allDaysLoop tz (parseDay (Min (set (observedDays tz ss)))) t []
          = Inr ([] @ [localDay tz (parseDay (Min (set (observedDays tz ss))))..t])"
    using assms(2) v t by (rule allDaysLoop_upto)
  then show ?thesis using agg ne e by (simp add: allDays_def Let_def firstDay_def)
qed

lemma dailyData_modelled:
  assumes "ss \<noteq> []" and "zoneOffset tz" and "modelledDates tz ss" and "modelledDay t"
  shows "dailyData tz ss t = Inr (map (fillDay (deltaMap tz ss)) [firstDay tz ss..t])"
  using dailyAggregation_modelled [OF assms(2,3)] allDays_modelled [OF assms]
  by (simp add: dailyData_def)

lemma cumulativeData_modelled:
  assumes "ss \<noteq> []" and "zoneOffset tz" and "modelledDates tz ss" and "modelledDay t"
  shows "cumulativeData tz ss t =
           Inr (accumulate 0 0 (map (fillDay (deltaMap tz ss)) [firstDay tz ss..t]))"
  using dailyData_modelled [OF assms] by (simp add: cumulativeData_def)

lemma cumulativeData_Nil:
  "cumulativeData tz [] t = Inl (Error ''No staker data available to determine date range.'')"
  by (simp add: cumulativeData_def dailyData_def allDays_Nil dailyAggregation_def)

lemma cumulativeData_invalid:
  "filter invalidStaker ss \<noteq> [] \<Longrightarrow>
     cumulativeData tz ss t = Inl (RangeError ''Invalid time value'')"
  by (simp add: cumulativeData_def dailyData_def dailyAggregation_invalid)

lemma final_sum:
  assumes "f \<le> Min (set (observedDays tz ss))"
  shows "finalStakingPower (accumulate 0 0 (map (fillDay (deltaMap tz ss)) [f..t]))
         = sum_list (map uiStakingPower (filter (\<lambda>s. startBucket tz s \<le> t) ss))
           - sum_list (map uiStakingPower (filter (endsBy tz t) ss))"
proof -
  have lb1: "f \<le> startBucket tz s" if "s \<in> set ss" for s
    using assms Min_observed_le(1) [OF that] by (rule order_trans)
  have lb2: "f \<le> x" if "s \<in> set ss" and "endBucket tz s = Some x" for s x
    using assms Min_observed_le(2) [OF that] by (rule order_trans)
  have f1: "filter (startsIn tz [f..t]) ss = filter (\<lambda>s. startBucket tz s \<le> t) ss"
    by (intro filter_cong) (auto simp: startsIn_def dest: lb1)
  have f2: "filter (endsIn tz [f..t]) ss = filter (endsBy tz t) ss"
    by (intro filter_cong) (auto simp: endsIn_ex endsBy_ex dest: lb2)
  show ?thesis
    by (simp only: final_accumulate sum_deltas_upto f1 f2)
qed

lemma active_sum:
  assumes "filter (endsBeforeStart tz) ss = []"
  shows "sum_list (map uiStakingPower (filter (\<lambda>s. startBucket tz s \<le> t) ss))
           - sum_list (map uiStakingPower (filter (endsBy tz t) ss))
         = activeStakingPower tz t ss"
  using assms
proof (induction ss)
  case Nil
  then show ?case by (simp add: activeStakingPower_def)
next
  case (Cons s ss)
  then have "sum_list (map uiStakingPower (filter (\<lambda>s. startBucket tz s \<le> t) ss))
           - sum_list (map uiStakingPower (filter (endsBy tz t) ss))
         = activeStakingPower tz t ss" by (simp split: if_splits)
  moreover have nb: "\<not> endsBeforeStart tz s" using Cons.prems by (simp split: if_splits)
  moreover have "(if startBucket tz s \<le> t then uiStakingPower s else 0)
                  - (if endsBy tz t s then uiStakingPower s else 0)
                = (if activeOn tz t s then uiStakingPower s else 0)"
    using nb by (cases "endBucket tz s") (auto simp: activeOn_def endsBeforeStart_def endsBy_def)
  ultimately show ?case
    by (simp add: activeStakingPower_def split: if_splits)
qed


subsection \<open>Delta round trip\<close>

text \<open>
  Claim C3, as stated: for every non-empty record list the final cumulative value is the
  total staking power of the lockups still active on the current day. A record whose end
  day lies before its start day is subtracted before it is added: for the single record
  \<open>reversedStaker\<close> (start day 10, end day 5, power 1) and the current day 7, in UTC,
  the series runs from day 5 to day 7 and ends at -1, while no lockup is active.
\<close>

theorem C3_delta_round_trip_counterexample:
  "[reversedStaker] \<noteq> []
   \<and> cumulativeData 0 [reversedStaker] 7 =
        Inr [\<lparr>day = 5, totalStakingPower = -1, totalMeStaked = -1\<rparr>,
             \<lparr>day = 6, totalStakingPower = -1, totalMeStaked = -1\<rparr>,
             \<lparr>day = 7, totalStakingPower = -1, totalMeStaked = -1\<rparr>]
   \<and> finalStakingPower
        [\<lparr>day = 5, totalStakingPower = -1, totalMeStaked = -1\<rparr>,
         \<lparr>day = 6, totalStakingPower = -1, totalMeStaked = -1\<rparr>,
         \<lparr>day = 7, totalStakingPower = -1, totalMeStaked = -1\<rparr>] = -1
   \<and> activeStakingPower 0 7 [reversedStaker] = 0"
  by code_simp

text \<open>
  Claim C3, amended: for every non-empty record list and fixed current day, on the dates
  of the model and in every zone, the aggregator returns a series; the sum of the per-day
  deltas over the output day range equals the sum of the staking power of the records
  whose start day falls in the range minus that of the records whose end day falls in the
  range; and when no record has an end day before its start day, the final cumulative
  value equals the total staking power of the lockups still active on the current day.
\<close>

theorem C3_delta_round_trip:
  assumes "stakerList \<noteq> []" and "zoneOffset tz"
    and "modelledDates tz stakerList" and "modelledDay today"
  shows "\<exists>items series.
           dailyData tz stakerList today = Inr items
         \<and> cumulativeData tz stakerList today = Inr series
         \<and> sum_list (map deltaStakingPower items) =
             sum_list (map uiStakingPower (filter (startsIn tz (map day items)) stakerList))
             - sum_list (map uiStakingPower (filter (endsIn tz (map day items)) stakerList))
         \<and> (filter (endsBeforeStart tz) stakerList = []
              \<longrightarrow> finalStakingPower series = activeStakingPower tz today stakerList)"
proof -
  let ?f = "firstDay tz stakerList"
  let ?items = "map (fillDay (deltaMap tz stakerList)) [?f..today]"
  have d: "dailyData tz stakerList today = Inr ?items"
    using assms by (rule dailyData_modelled)
  have c: "cumulativeData tz stakerList today = Inr (accumulate 0 0 ?items)"
    using assms by (rule cumulativeData_modelled)
  have days: "map day ?items = [?f..today]" by (rule day_filled)
  have s: "sum_list (map deltaStakingPower ?items) =
             sum_list (map uiStakingPower (filter (startsIn tz (map day ?items)) stakerList))
             - sum_list (map uiStakingPower (filter (endsIn tz (map day ?items)) stakerList))"
    unfolding days by (rule sum_deltas_upto)
  have f: "filter (endsBeforeStart tz) stakerList = []
              \<longrightarrow> finalStakingPower (accumulate 0 0 ?items)
                    = activeStakingPower tz today stakerList"
    using final_sum [OF firstDay_le [OF assms(2)], of stakerList today]
      active_sum [of tz stakerList today] by simp
  show ?thesis using d c s f by (intro exI conjI)
qed

theorem C3_delta_round_trip_witness:
  "mockStakers \<noteq> [] \<and> zoneOffset (- 18000) \<and> modelledDates (- 18000) mockStakers
   \<and> modelledDay 19804 \<and> filter (endsBeforeStart (- 18000)) mockStakers = []
   \<and> (\<exists>items series.
           dailyData (- 18000) mockStakers 19804 = Inr items
         \<and> cumulativeData (- 18000) mockStakers 19804 = Inr series
         \<and> sum_list (map deltaStakingPower items) =
             sum_list (map uiStakingPower (filter (startsIn (- 18000) (map day items)) mockStakers))
             - sum_list (map uiStakingPower (filter (endsIn (- 18000) (map day items)) mockStakers))
         \<and> finalStakingPower series = activeStakingPower (- 18000) 19804 mockStakers)
   \<and> activeStakingPower (- 18000) 19804 mockStakers = 20400.01"
proof -
  have ne: "mockStakers \<noteq> []" by (simp add: mockStakers_def)
  have z: "zoneOffset (- 18000)" by (simp add: zoneOffset_def)
  have md: "modelledDates (- 18000) mockStakers" by code_simp
  have mt: "modelledDay 19804" by (simp add: modelledDay_def)
  have nf: "filter (endsBeforeStart (- 18000)) mockStakers = []" by code_simp
  have a: "activeStakingPower (- 18000) 19804 mockStakers = 20400.01" by code_simp
  from C3_delta_round_trip [OF ne z md mt] nf
  have "\<exists>items series.
           dailyData (- 18000) mockStakers 19804 = Inr items
         \<and> cumulativeData (- 18000) mockStakers 19804 = Inr series
         \<and> sum_list (map deltaStakingPower items) =
             sum_list (map uiStakingPower (filter (startsIn (- 18000) (map day items)) mockStakers))
             - sum_list (map uiStakingPower (filter (endsIn (- 18000) (map day items)) mockStakers))
         \<and> finalStakingPower series = activeStakingPower (- 18000) 19804 mockStakers"
    by simp
  then show ?thesis using ne z md mt nf a by (intro conjI)
qed

subsection \<open>Gap filling\<close>




text \<open>
  West of UTC the loop starts a day early: the earliest key is read as midnight UTC,
  which is the evening before in local time. With the offset of five hours west, the two
  records that start on the days 19802 and 19812 give 12 days, from 19801 on. The
  comment in the code reads \<open>Loop from the earliest day until today's date\<close>.
\<close>

lemma west_of_UTC_starts_a_day_early:
  "startBucket (- 18000) earlierStaker = 19802 \<and> startBucket (- 18000) laterStaker = 19812
   \<and> Min (set (observedDays (- 18000) [earlierStaker, laterStaker])) = 19802
   \<and> allDays (- 18000) [earlierStaker, laterStaker] 19812 = Inr [19801..19812]
   \<and> length [19801..19812 :: int] = 12"
  by code_simp

subsection \<open>Degenerate records, invalid dates and the empty list\<close>

text \<open>
  Claim C9, as stated: records with \<open>endTs \<le> startTs\<close> do not anchor the day range,
  and no such record makes the aggregator raise an error. The code keeps every record:
  with the well-formed \<open>plainStaker\<close> (days 10 to 20) alone and the current day 12 the
  range starts on day 10, and with the degenerate \<open>reversedStaker\<close> (start day 10, end
  day 5) added it starts on day 5. And a record can raise: \<open>farFutureStaker\<close>, which is
  degenerate, has a start that is not a valid date, and \<open>format\<close> throws.
\<close>

theorem C9_degenerate_records_counterexample:
  "\<not> degenerate plainStaker \<and> degenerate reversedStaker \<and> degenerate farFutureStaker
   \<and> allDays 0 [plainStaker] 12 = Inr [10, 11, 12]
   \<and> allDays 0 [plainStaker, reversedStaker] 12 = Inr [5, 6, 7, 8, 9, 10, 11, 12]
   \<and> cumulativeData 0 [plainStaker, farFutureStaker] 12
        = Inl (RangeError ''Invalid time value'')"
  by code_simp

text \<open>
  Claim C9, amended: no record is excluded from anchoring the day range: on the dates of
  the model, for every non-empty record list the aggregator returns a series, and the
  start day of every record, degenerate or not, and its end day when it has one, is a day
  of the series unless it lies after the current day. On these dates no record makes the
  aggregator raise an error. It raises \<open>No staker data available to determine date
  range.\<close> for the empty record list, and \<open>RangeError\<close> for a list with a record whose
  start, or whose end when \<open>endTs\<close> is not 0, is not a valid date.
\<close>

theorem C9_degenerate_records:
  "cumulativeData tz [] today
     = Inl (Error ''No staker data available to determine date range.'')
   \<and> (filter invalidStaker stakerList \<noteq> []
        \<longrightarrow> cumulativeData tz stakerList today = Inl (RangeError ''Invalid time value''))
   \<and> (stakerList \<noteq> [] \<and> zoneOffset tz \<and> modelledDates tz stakerList \<and> modelledDay today
        \<longrightarrow> (\<exists>series. cumulativeData tz stakerList today = Inr series
           \<and> (\<forall>s \<in> set stakerList.
                 (startBucket tz s \<le> today \<longrightarrow> startBucket tz s \<in> set (map day series))
               \<and> (\<forall>x. endBucket tz s = Some x \<and> x \<le> today
                      \<longrightarrow> x \<in> set (map day series)))))"
proof (intro conjI impI)
  show "cumulativeData tz [] today
     = Inl (Error ''No staker data available to determine date range.'')"
    by (rule cumulativeData_Nil)
next
  assume "filter invalidStaker stakerList \<noteq> []"
  then show "cumulativeData tz stakerList today = Inl (RangeError ''Invalid time value'')"
    by (rule cumulativeData_invalid)
next
  assume h: "stakerList \<noteq> [] \<and> zoneOffset tz \<and> modelledDates tz stakerList \<and> modelledDay today"
  let ?f = "firstDay tz stakerList"
  let ?series = "accumulate 0 0 (map (fillDay (deltaMap tz stakerList)) [?f..today])"
  have c: "cumulativeData tz stakerList today = Inr ?series"
    using cumulativeData_modelled [of stakerList tz today] h by simp
  have days: "map day ?series = [?f..today]"
    by (rule day_series)
  have le: "?f \<le> Min (set (observedDays tz stakerList))"
    using h by (simp add: firstDay_le)
  have lb1: "?f \<le> startBucket tz s" if "s \<in> set stakerList" for s
    using le Min_observed_le(1) [OF that] by (rule order_trans)
  have lb2: "?f \<le> x" if "s \<in> set stakerList" and "endBucket tz s = Some x" for s x
    using le Min_observed_le(2) [OF that] by (rule order_trans)
  have "\<forall>s \<in> set stakerList.
                 (startBucket tz s \<le> today \<longrightarrow> startBucket tz s \<in> set (map day ?series))
               \<and> (\<forall>x. endBucket tz s = Some x \<and> x \<le> today
                      \<longrightarrow> x \<in> set (map day ?series))"
    unfolding days using lb1 lb2 by auto
  with c show "\<exists>series. cumulativeData tz stakerList today = Inr series
           \<and> (\<forall>s \<in> set stakerList.
                 (startBucket tz s \<le> today \<longrightarrow> startBucket tz s \<in> set (map day series))
               \<and> (\<forall>x. endBucket tz s = Some x \<and> x \<le> today
                      \<longrightarrow> x \<in> set (map day series)))"
    by blast
qed

theorem C9_degenerate_records_witness:
  "[plainStaker, reversedStaker] \<noteq> [] \<and> zoneOffset 0
   \<and> modelledDates 0 [plainStaker, reversedStaker] \<and> modelledDay 12
   \<and> degenerate reversedStaker
   \<and> startBucket 0 reversedStaker = 10 \<and> endBucket 0 reversedStaker = Some 5
   \<and> (\<exists>series. cumulativeData 0 [plainStaker, reversedStaker] 12 = Inr series
         \<and> 10 \<in> set (map day series) \<and> 5 \<in> set (map day series))
   \<and> filter invalidStaker [plainStaker, farFutureStaker] \<noteq> []
   \<and> cumulativeData 0 [plainStaker, farFutureStaker] 12
        = Inl (RangeError ''Invalid time value'')"
proof -
  let ?l = "[plainStaker, reversedStaker]"
  have ne: "?l \<noteq> []" by simp
  have z: "zoneOffset 0" by (simp add: zoneOffset_def)
  have md: "modelledDates 0 ?l" by code_simp
  have mt: "modelledDay 12" by (simp add: modelledDay_def)
  have f: "degenerate reversedStaker \<and> startBucket 0 reversedStaker = 10
             \<and> endBucket 0 reversedStaker = Some 5"
    by code_simp
  have iv: "filter invalidStaker [plainStaker, farFutureStaker] \<noteq> []" by code_simp
  note c9 = C9_degenerate_records [of 0 12 "[plainStaker, farFutureStaker]"]
  have r: "cumulativeData 0 [plainStaker, farFutureStaker] 12
        = Inl (RangeError ''Invalid time value'')"
    using c9 iv by blast
  obtain series where s: "cumulativeData 0 ?l 12 = Inr series"
    and a: "\<forall>s \<in> set ?l.
                 (startBucket 0 s \<le> 12 \<longrightarrow> startBucket 0 s \<in> set (map day series))
               \<and> (\<forall>x. endBucket 0 s = Some x \<and> x \<le> 12 \<longrightarrow> x \<in> set (map day series))"
    using C9_degenerate_records [of 0 12 ?l] ne z md mt by blast
  have "10 \<in> set (map day series)" using a f by force
  moreover have "5 \<in> set (map day series)" using a f by force
  ultimately have e: "\<exists>series. cumulativeData 0 ?l 12 = Inr series
         \<and> 10 \<in> set (map day series) \<and> 5 \<in> set (map day series)"
    using s by blast
  show ?thesis using ne z md mt f e iv r by (intro conjI) simp_all
qed


section \<open>Properties of getPercentileThresholds\<close>

lemma powers_sorted_unique:
  assumes "mset ys = mset xs" and "descendingByPower ys"
  shows "map uiStakingPower (sort_key (\<lambda>s. - uiStakingPower s) xs) = map uiStakingPower ys"
proof -
  let ?f = "\<lambda>s. - uiStakingPower s"
  let ?zs = "sort_key ?f xs"
  have sy: "sorted (map ?f ys)"
    using assms(2) by (simp add: descendingByPower_def sorted_wrt_map)
  have m: "mset (map ?f ?zs) = mset (map ?f ys)"
    using assms(1) by simp
  have "sorted (map ?f ?zs)" by (rule sorted_sort_key)
  then have "sort (map ?f ys) = map ?f ?zs"
    using m by (intro properties_for_sort) simp_all
  moreover have "sort (map ?f ys) = map ?f ys"
    using sy by (rule sorted_sort_id)
  ultimately have "map ?f ?zs = map ?f ys" by simp
  then have "map uminus (map ?f ?zs) = map uminus (map ?f ys)"
    by (rule arg_cong)
  then show ?thesis
    by (simp add: o_def)
qed


lemma elemAt_sorted:
  "i < length xs \<Longrightarrow> elemAt (sort_key f xs) i = Some (sort_key f xs ! i)"
  by (simp add: elemAt_def)

lemma orZero_Some: "orZero (Some v) = v"
  by (simp add: orZero_def)

lemma threshold_at:
  assumes "mset ys = mset xs" and "descendingByPower ys" and "i < length xs"
  shows "orZero (map_option uiStakingPower (elemAt (sort_key (\<lambda>s. - uiStakingPower s) xs) i))
           = uiStakingPower (ys ! i)"
proof -
  let ?zs = "sort_key (\<lambda>s. - uiStakingPower s) xs"
  have len: "length ys = length xs" using assms(1) by (rule mset_eq_length)
  have "uiStakingPower (?zs ! i) = map uiStakingPower ?zs ! i"
    using assms(3) by simp
  also have "\<dots> = map uiStakingPower ys ! i"
    using powers_sorted_unique [OF assms(1,2)] by simp
  also have "\<dots> = uiStakingPower (ys ! i)"
    using assms(3) len by simp
  finally show ?thesis using assms(3) by (simp add: elemAt_def orZero_Some)
qed

lemma threshold_out_of_range:
  "\<not> i < length xs \<Longrightarrow>
     orZero (map_option uiStakingPower (elemAt (sort_key f xs) i)) = 0"
  by (simp add: elemAt_def orZero_def)

lemma descending_sort_key: "descendingByPower (sort_key (\<lambda>s. - uiStakingPower s) xs)"
proof -
  have "sorted (map (\<lambda>s. - uiStakingPower s) (sort_key (\<lambda>s. - uiStakingPower s) xs))"
    by (rule sorted_sort_key)
  then show ?thesis by (simp add: descendingByPower_def sorted_wrt_map)
qed

lemma descending_hd_Max:
  assumes "descendingByPower ys" and "ys \<noteq> []"
  shows "uiStakingPower (ys ! 0) = Max (uiStakingPower ` set ys)"
proof -
  obtain y rest where ys: "ys = y # rest" using assms(2) by (cases ys) auto
  have "\<forall>z \<in> set rest. uiStakingPower z \<le> uiStakingPower y"
    using assms(1) by (simp add: descendingByPower_def ys)
  then have "Max (uiStakingPower ` set ys) = uiStakingPower y"
    by (intro Max_eqI) (auto simp: ys)
  then show ?thesis by (simp add: ys)
qed

text \<open>
  Claim C5. For a record list of length \<open>n\<close>, \<open>top1\<close> is the staking power at index
  \<open>n div 100\<close> and \<open>top10\<close> the staking power at index \<open>n div 10\<close> of any copy of the
  list sorted in descending order of staking power, whenever the index is in range; a
  threshold whose index is out of range is 0, which includes both thresholds for
  \<open>n = 0\<close>; and for \<open>n = 2\<close>, \<open>top1\<close> is the highest power present.
\<close>

theorem C5_percentile_thresholds:
  assumes "mset sortedCopy = mset stakerList" and "descendingByPower sortedCopy"
  shows "(length stakerList div 100 < length stakerList \<longrightarrow>
            top1 (getPercentileThresholds stakerList)
              = uiStakingPower (sortedCopy ! (length stakerList div 100)))
       \<and> (length stakerList div 10 < length stakerList \<longrightarrow>
            top10 (getPercentileThresholds stakerList)
              = uiStakingPower (sortedCopy ! (length stakerList div 10)))
       \<and> (\<not> length stakerList div 100 < length stakerList \<longrightarrow>
            top1 (getPercentileThresholds stakerList) = 0)
       \<and> (\<not> length stakerList div 10 < length stakerList \<longrightarrow>
            top10 (getPercentileThresholds stakerList) = 0)
       \<and> (length stakerList = 0 \<longrightarrow>
            top1 (getPercentileThresholds stakerList) = 0
            \<and> top10 (getPercentileThresholds stakerList) = 0)
       \<and> (length stakerList = 2 \<longrightarrow>
            top1 (getPercentileThresholds stakerList) = Max (uiStakingPower ` set stakerList))"
proof -
  let ?n = "length stakerList"
  have t1: "top1 (getPercentileThresholds stakerList) =
      orZero (map_option uiStakingPower
        (elemAt (sort_key (\<lambda>s. - uiStakingPower s) stakerList) (?n div 100)))"
    by (simp add: getPercentileThresholds_def Let_def)
  have t10: "top10 (getPercentileThresholds stakerList) =
      orZero (map_option uiStakingPower
        (elemAt (sort_key (\<lambda>s. - uiStakingPower s) stakerList) (?n div 10)))"
    by (simp add: getPercentileThresholds_def Let_def)
  have a: "?n div 100 < ?n \<longrightarrow>
      top1 (getPercentileThresholds stakerList) = uiStakingPower (sortedCopy ! (?n div 100))"
    unfolding t1 using threshold_at [OF assms] by blast
  have b: "?n div 10 < ?n \<longrightarrow>
      top10 (getPercentileThresholds stakerList) = uiStakingPower (sortedCopy ! (?n div 10))"
    unfolding t10 using threshold_at [OF assms] by blast
  have c: "\<not> ?n div 100 < ?n \<longrightarrow> top1 (getPercentileThresholds stakerList) = 0"
    unfolding t1 using threshold_out_of_range by blast
  have d: "\<not> ?n div 10 < ?n \<longrightarrow> top10 (getPercentileThresholds stakerList) = 0"
    unfolding t10 using threshold_out_of_range by blast
  have e: "?n = 0 \<longrightarrow> top1 (getPercentileThresholds stakerList) = 0
            \<and> top10 (getPercentileThresholds stakerList) = 0"
    by (simp add: getPercentileThresholds_def Let_def elemAt_def orZero_def)
  have f: "?n = 2 \<longrightarrow>
      top1 (getPercentileThresholds stakerList) = Max (uiStakingPower ` set stakerList)"
  proof
    assume n: "?n = 2"
    then have "top1 (getPercentileThresholds stakerList) = uiStakingPower (sortedCopy ! 0)"
      using a by simp
    moreover have "sortedCopy \<noteq> []" using assms(1) n by auto
    moreover have "set sortedCopy = set stakerList" using assms(1) by (rule mset_eq_setD)
    ultimately show "top1 (getPercentileThresholds stakerList) = Max (uiStakingPower ` set stakerList)"
      using descending_hd_Max [OF assms(2)] by simp
  qed
  from a b c d e f show ?thesis by (intro conjI)
qed

theorem C5_percentile_thresholds_witness:
  "mset (rev mockStakers) = mset mockStakers \<and> descendingByPower (rev mockStakers)
   \<and> length mockStakers = 2
   \<and> top1 (getPercentileThresholds mockStakers) = 20000.01
   \<and> top10 (getPercentileThresholds mockStakers) = 20000.01
   \<and> top1 (getPercentileThresholds mockStakers) = Max (uiStakingPower ` set mockStakers)"
proof -
  have m: "mset (rev mockStakers) = mset mockStakers" by simp
  have d: "descendingByPower (rev mockStakers)"
    by (simp add: mockStakers_def descendingByPower_def)
  have l: "length mockStakers = 2" by (simp add: mockStakers_def)
  have r: "uiStakingPower (rev mockStakers ! 0) = 20000.01" by (simp add: mockStakers_def)
  from C5_percentile_thresholds [OF m d] l r m d show ?thesis by simp
qed

section \<open>Properties of the fetcher and of rendering\<close>

lemma tryFetch_failure:
  "isFailure outcome \<longleftrightarrow> (\<exists>m. tryFetch outcome = Inl m)"
  by (auto simp: isFailure_def tryFetch_def split: fetch_outcome.splits response_body.splits)

lemma fetchData_failure:
  assumes "tryFetch outcome = Inl m"
  shows "fetchData outcome st =
           \<lparr>data = Some mockData, error = Some m, loading = False, usingMockData = True\<rparr>"
  using assms by (simp add: fetchData_def Let_def)

text \<open>
  After a failure the delta-based version holds the sample snapshot in its state, but
  what it puts on the screen is the error panel, unless the message of the error is
  empty.
\<close>

lemma failure_screen:
  assumes "tryFetch outcome = Inl m"
  shows "selectScreen (fetchData outcome st) =
           (if m \<noteq> [] then ShowError m else ShowDashboard mockData True)"
  by (simp add: fetchData_failure [OF assms] selectScreen_def truthyString_def orElse_def)

lemma failure_view:
  assumes "tryFetch outcome = Inl m" and "m \<noteq> []"
  shows "ErrorBoundary (App tz parsesAsDate (fetchData outcome st) today) = ErrorMessage m"
  using assms by (simp add: App_def failure_screen ErrorBoundary_def)

text \<open>
  The first version of App.tsx does not record the error, and shows the sample snapshot
  with the notice after every failure of its own.
\<close>

lemma fetchData_v1_failure:
  assumes "tryFetch_v1 outcome = Inl m"
  shows "fetchData_v1 outcome st =
           \<lparr>data = Some mockData, error = None, loading = False, usingMockData = True\<rparr>"
    and "selectScreen (fetchData_v1 outcome st) = ShowDashboard mockData True"
  using assms by (simp_all add: fetchData_v1_def Let_def selectScreen_def truthyString_def)

text \<open>
  A total that is the number 0 fails the validation like a total that is absent, for
  both totals and whatever else the payload holds.
\<close>

lemma zero_total_is_missing:
  assumes "totalUIStakingPower d = Some 0 \<or> totalUIStaked d = Some 0" and "ok status"
  shows "tryFetch (Response status (Envelope d)) = Inl ''Missing required fields in API response''"
    and "fetchData (Response status (Envelope d)) st =
           \<lparr>data = Some mockData, error = Some ''Missing required fields in API response'',
            loading = False, usingMockData = True\<rparr>"
    and "ErrorBoundary (App tz parsesAsDate (fetchData (Response status (Envelope d)) st) today)
           = ErrorMessage ''Missing required fields in API response''"
proof -
  have m: "missingRequiredFields d"
    using assms(1) by (auto simp: missingRequiredFields_def truthyNumber_def)
  show t: "tryFetch (Response status (Envelope d)) = Inl ''Missing required fields in API response''"
    using m assms(2) by (simp add: tryFetch_def)
  show "fetchData (Response status (Envelope d)) st =
           \<lparr>data = Some mockData, error = Some ''Missing required fields in API response'',
            loading = False, usingMockData = True\<rparr>"
    using t by (rule fetchData_failure)
  show "ErrorBoundary (App tz parsesAsDate (fetchData (Response status (Envelope d)) st) today)
           = ErrorMessage ''Missing required fields in API response''"
    using t by (rule failure_view) simp
qed

text \<open>
  Claim C6, as stated: every non-empty record list gives a series. A record whose start
  is not a valid date makes \<open>format\<close> throw while the deltas are collected: for the list
  that holds only \<open>farFutureStaker\<close> the aggregator returns \<open>RangeError\<close>.
\<close>

theorem C6_empty_input_counterexample:
  "[farFutureStaker] \<noteq> []
   \<and> cumulativeData 0 [farFutureStaker] 19804 = Inl (RangeError ''Invalid time value'')"
  by code_simp

text \<open>
  Claim C6, amended: for the empty record list the aggregator returns the error \<open>No
  staker data available to determine date range.\<close>, not a series; for every non-empty
  list on the dates of the model it returns a series; for a list with a record whose
  start, or whose end when \<open>endTs\<close> is not 0, is not a valid date it returns
  \<open>RangeError\<close>. When the snapshot on the dashboard has an empty record list, or one with
  such a record, the error is thrown while \<open>App\<close> renders, and \<open>ErrorBoundary\<close> shows
  its panel with the message of the error.
\<close>

theorem C6_empty_input:
  "cumulativeData tz [] today
     = Inl (Error ''No staker data available to determine date range.'')
   \<and> (stakerList \<noteq> [] \<and> zoneOffset tz \<and> modelledDates tz stakerList \<and> modelledDay today
        \<longrightarrow> (\<exists>series. cumulativeData tz stakerList today = Inr series))
   \<and> (filter invalidStaker stakerList \<noteq> []
        \<longrightarrow> cumulativeData tz stakerList today = Inl (RangeError ''Invalid time value''))
   \<and> (selectScreen st = ShowDashboard d notice \<and> stakers d = Some [] \<longrightarrow>
        App tz parsesAsDate st today
          = Inl (Error ''No staker data available to determine date range.'')
        \<and> ErrorBoundary (App tz parsesAsDate st today)
            = BoundaryFallback ''No staker data available to determine date range.'')
   \<and> (selectScreen st = ShowDashboard d notice \<and> stakers d = Some stakerList
        \<and> filter invalidStaker stakerList \<noteq> [] \<longrightarrow>
        ErrorBoundary (App tz parsesAsDate st today) = BoundaryFallback ''Invalid time value'')"
proof (intro conjI impI)
  show "cumulativeData tz [] today
     = Inl (Error ''No staker data available to determine date range.'')"
    by (rule cumulativeData_Nil)
next
  assume "stakerList \<noteq> [] \<and> zoneOffset tz \<and> modelledDates tz stakerList \<and> modelledDay today"
  then show "\<exists>series. cumulativeData tz stakerList today = Inr series"
    by (simp add: cumulativeData_modelled)
next
  assume "filter invalidStaker stakerList \<noteq> []"
  then show "cumulativeData tz stakerList today = Inl (RangeError ''Invalid time value'')"
    by (rule cumulativeData_invalid)
next
  assume h: "selectScreen st = ShowDashboard d notice \<and> stakers d = Some []"
  then show a: "App tz parsesAsDate st today
          = Inl (Error ''No staker data available to determine date range.'')"
    by (simp add: App_def cumulativeData_Nil)
  show "ErrorBoundary (App tz parsesAsDate st today)
            = BoundaryFallback ''No staker data available to determine date range.''"
    by (simp add: a ErrorBoundary_def)
next
  assume h: "selectScreen st = ShowDashboard d notice \<and> stakers d = Some stakerList
        \<and> filter invalidStaker stakerList \<noteq> []"
  then have "cumulativeData tz stakerList today = Inl (RangeError ''Invalid time value'')"
    by (simp add: cumulativeData_invalid)
  then show "ErrorBoundary (App tz parsesAsDate st today)
               = BoundaryFallback ''Invalid time value''"
    using h by (simp add: App_def ErrorBoundary_def)
qed

theorem C6_empty_input_witness:
  "mockStakers \<noteq> [] \<and> zoneOffset 0 \<and> modelledDates 0 mockStakers \<and> modelledDay 19804
   \<and> selectScreen (fetchData (Response 200 (Envelope emptySnapshot)) initialState)
       = ShowDashboard emptySnapshot False
   \<and> stakers emptySnapshot = Some []
   \<and> filter invalidStaker [farFutureStaker] \<noteq> []
   \<and> (\<exists>series. cumulativeData 0 mockStakers 19804 = Inr series)
   \<and> cumulativeData 0 [farFutureStaker] 19804 = Inl (RangeError ''Invalid time value'')
   \<and> ErrorBoundary
        (App 0 (\<lambda>s. True) (fetchData (Response 200 (Envelope emptySnapshot)) initialState) 19804)
       = BoundaryFallback ''No staker data available to determine date range.''"
proof -
  let ?st = "fetchData (Response 200 (Envelope emptySnapshot)) initialState"
  have ne: "mockStakers \<noteq> []" by (simp add: mockStakers_def)
  have z: "zoneOffset 0" by (simp add: zoneOffset_def)
  have md: "modelledDates 0 mockStakers" by code_simp
  have mt: "modelledDay 19804" by (simp add: modelledDay_def)
  have h: "selectScreen ?st = ShowDashboard emptySnapshot False \<and> stakers emptySnapshot = Some []"
    by code_simp
  have iv: "filter invalidStaker [farFutureStaker] \<noteq> []" by code_simp
  note c6 = C6_empty_input [of 0 19804 mockStakers ?st emptySnapshot False "\<lambda>s. True"]
  have g: "\<exists>series. cumulativeData 0 mockStakers 19804 = Inr series"
    using c6 ne z md mt by blast
  have b: "ErrorBoundary (App 0 (\<lambda>s. True) ?st 19804)
       = BoundaryFallback ''No staker data available to determine date range.''"
    using c6 h by blast
  have r: "cumulativeData 0 [farFutureStaker] 19804 = Inl (RangeError ''Invalid time value'')"
    using C6_empty_input [of 0 19804 "[farFutureStaker]" ?st emptySnapshot False "\<lambda>s. True"] iv
    by blast
  show ?thesis using ne z md mt h iv g r b by (intro conjI) simp_all
qed

text \<open>
  Claim C7. After a failed fetch the screen shows the bundled sample snapshot with the
  sample-data notice. The first version of App.tsx does so. The delta-based version
  stores the sample snapshot and sets \<open>usingMockData\<close>, but it also stores the error,
  and its render returns the error panel before it looks at the snapshot: for a response
  with status 500 the screen is the error panel with the message \<open>HTTP error! status:
  500\<close>, without snapshot and without notice, in every zone and on every day.
\<close>

theorem C7_fallback_shows_error_panel:
  "isFailure (Response 500 NoEnvelope)
   \<and> fetchData (Response 500 NoEnvelope) initialState =
       \<lparr>data = Some mockData, error = Some ''HTTP error! status: 500'', loading = False,
        usingMockData = True\<rparr>
   \<and> selectScreen (fetchData (Response 500 NoEnvelope) initialState)
        = ShowError ''HTTP error! status: 500''
   \<and> ErrorBoundary (App tz parsesAsDate (fetchData (Response 500 NoEnvelope) initialState) today)
        = ErrorMessage ''HTTP error! status: 500''
   \<and> selectScreen (fetchData_v1 (Response 500 NoEnvelope) initialState)
        = ShowDashboard mockData True"
proof -
  have f: "isFailure (Response 500 NoEnvelope)" by code_simp
  have t: "tryFetch (Response 500 NoEnvelope) = Inl ''HTTP error! status: 500''" by code_simp
  have t1: "tryFetch_v1 (Response 500 NoEnvelope) = Inl ''HTTP error! status: 500''"
    by code_simp
  have s: "fetchData (Response 500 NoEnvelope) initialState =
       \<lparr>data = Some mockData, error = Some ''HTTP error! status: 500'', loading = False,
        usingMockData = True\<rparr>"
    using t by (rule fetchData_failure)
  have sc: "selectScreen (fetchData (Response 500 NoEnvelope) initialState)
        = ShowError ''HTTP error! status: 500''"
    using failure_screen [OF t] by simp
  have v: "ErrorBoundary (App tz parsesAsDate (fetchData (Response 500 NoEnvelope) initialState) today)
        = ErrorMessage ''HTTP error! status: 500''"
    using t by (rule failure_view) simp
  have v1: "selectScreen (fetchData_v1 (Response 500 NoEnvelope) initialState)
        = ShowDashboard mockData True"
    using t1 by (rule fetchData_v1_failure(2))
  show ?thesis using f s sc v v1 by (intro conjI)
qed

text \<open>
  Claim C10. A complete live payload whose total staked is the number 0 fails the
  validation of the required fields, which tests for falsiness: the state after the fetch
  is the state after a payload without that field, with the sample snapshot stored and
  \<open>usingMockData\<close> set. The screen, however, is the error panel with the message
  \<open>Missing required fields in API response\<close>, not the sample snapshot with the notice.
\<close>

theorem C10_zero_total_treated_as_missing:
  "stakers zeroStaked \<noteq> None \<and> totalUIStakingPower zeroStaked \<noteq> None
   \<and> totalUIStaked zeroStaked = Some 0
   \<and> fetchData (Response 200 (Envelope zeroStaked)) initialState
       = fetchData (Response 200 (Envelope (zeroStaked\<lparr>totalUIStaked := None\<rparr>))) initialState
   \<and> fetchData (Response 200 (Envelope zeroStaked)) initialState =
       \<lparr>data = Some mockData, error = Some ''Missing required fields in API response'',
        loading = False, usingMockData = True\<rparr>
   \<and> ErrorBoundary
        (App tz parsesAsDate (fetchData (Response 200 (Envelope zeroStaked)) initialState) today)
        = ErrorMessage ''Missing required fields in API response''"
proof -
  have p: "stakers zeroStaked \<noteq> None \<and> totalUIStakingPower zeroStaked \<noteq> None
   \<and> totalUIStaked zeroStaked = Some 0"
    by code_simp
  have e: "fetchData (Response 200 (Envelope zeroStaked)) initialState
       = fetchData (Response 200 (Envelope (zeroStaked\<lparr>totalUIStaked := None\<rparr>))) initialState"
    by code_simp
  have t: "tryFetch (Response 200 (Envelope zeroStaked))
             = Inl ''Missing required fields in API response''"
    by code_simp
  have s: "fetchData (Response 200 (Envelope zeroStaked)) initialState =
       \<lparr>data = Some mockData, error = Some ''Missing required fields in API response'',
        loading = False, usingMockData = True\<rparr>"
    using t by (rule fetchData_failure)
  have v: "ErrorBoundary
        (App tz parsesAsDate (fetchData (Response 200 (Envelope zeroStaked)) initialState) today)
        = ErrorMessage ''Missing required fields in API response''"
    using t by (rule failure_view) simp
  show ?thesis using p e s v by (intro conjI) simp_all
qed


end
